theory Spec2Isabelle
  imports Complex_Main "HOL-Library.Word"
begin

section \<open>Bytes, errors and the scalar encoder\<close>

text \<open>
  A Python \<open>bytes\<close> object is a list of 8-bit words.  Python integers are unbounded and
  are modelled as \<open>int\<close>.  Every exception that the transaction builder can raise is a
  constructor of \<open>error\<close>; the generic \<open>Exception(msg)\<close> raised for a bad message type
  carries its message text.
\<close>

type_synonym byte = "8 word"
type_synonym bytes = "byte list"

datatype error =
    OverflowError
  | KeyError
  | ValueError
  | AttributeError
  | TypeError
  | ZeroDivisionError
  | UnicodeEncodeError
  | Exception string

text \<open>
  \<open>int.to_bytes(length, 'little')\<close>: the \<open>length\<close> low-order bytes of the value, least
  significant first.  Python raises \<open>OverflowError\<close> for a negative value (the conversion
  is unsigned) and for a value that needs more than \<open>length\<close> bytes.
\<close>

fun le_bytes :: "nat \<Rightarrow> int \<Rightarrow> bytes" where
  "le_bytes 0 v = []"
| "le_bytes (Suc n) v = word_of_int (v mod 256) # le_bytes n (v div 256)"

definition to_bytes_little :: "int \<Rightarrow> nat \<Rightarrow> error + bytes" where
  "to_bytes_little v n =
     (if v < 0 then Inl OverflowError
      else if 2 ^ (8 * n) \<le> v then Inl OverflowError
      else Inr (le_bytes n v))"

text \<open>\<open>int.from_bytes(bs, 'little')\<close>, used to state what a field decodes to.\<close>

fun from_bytes_little :: "bytes \<Rightarrow> int" where
  "from_bytes_little [] = 0"
| "from_bytes_little (b # bs) = uint b + 256 * from_bytes_little bs"

text \<open>\<open>TransactionCreator.convert_number_to_byte(value, byte_num)\<close>.\<close>

definition convert_number_to_byte :: "int \<Rightarrow> nat \<Rightarrow> error + bytes" where
  "convert_number_to_byte v byte_num = to_bytes_little v byte_num"


section \<open>Python numbers\<close>

text \<open>
  A Python \<open>float\<close> is an IEEE 754 binary64 value: a finite one is the rational number it
  denotes (the two zeros are identified, which no operation below can tell apart), the
  others are the two infinities and NaN.  \<open>round_double\<close> rounds a rational to the nearest
  number with a 53-bit significand and exponent at least \<open>-1074\<close>, ties to even; it is
  the rounding of every float operation and of the conversion of an integer to a float.
  \<open>to_double\<close> adds the overflow to infinity at \<open>2^1024\<close>.
\<close>

datatype pyfloat = Finite rat | PInf | NInf | NaN

datatype pynum = PyInt int | PyFloat pyfloat

definition pow2 :: "int \<Rightarrow> rat" where
  "pow2 e = (if 0 \<le> e then 2 ^ nat e else 1 / 2 ^ nat (- e))"

fun bitlen :: "nat \<Rightarrow> nat" where
  "bitlen n = (if n = 0 then 0 else Suc (bitlen (n div 2)))"

declare bitlen.simps [simp del]

text \<open>\<open>ilog2 x\<close> is the integer \<open>k\<close> with \<open>2^k \<le> x < 2^(k+1)\<close>, for \<open>x > 0\<close>.\<close>

definition ilog2 :: "rat \<Rightarrow> int" where
  "ilog2 x =
     (let (p, q) = quotient_of x;
          d = int (bitlen (nat p)) - int (bitlen (nat q))
      in if pow2 d \<le> x then d else d - 1)"

definition round_half_even :: "rat \<Rightarrow> int" where
  "round_half_even x =
     (let f = \<lfloor>x\<rfloor>; d = x - of_int f
      in if d < 1 / 2 then f
         else if 1 / 2 < d then f + 1
         else if even f then f else f + 1)"

definition round_pos :: "rat \<Rightarrow> rat" where
  "round_pos x =
     (let e = max (ilog2 x - 52) (- 1074)
      in of_int (round_half_even (x / pow2 e)) * pow2 e)"

definition round_double :: "rat \<Rightarrow> rat" where
  "round_double x =
     (if x = 0 then 0 else if 0 < x then round_pos x else - round_pos (- x))"

definition to_double :: "rat \<Rightarrow> pyfloat" where
  "to_double x =
     (let r = round_double x
      in if 2 ^ 1024 \<le> r then PInf else if r \<le> - (2 ^ 1024) then NInf else Finite r)"

text \<open>A float literal of the source, such as \<open>0.05\<close>, is the double nearest to it.\<close>

definition float_lit :: "rat \<Rightarrow> pyfloat" where
  "float_lit q = to_double q"

text \<open>
  Conversion of an \<open>int\<close> operand in mixed arithmetic: correctly rounded, and
  \<open>OverflowError\<close> (int too large to convert to float) instead of an infinity.
\<close>

definition float_of_int :: "int \<Rightarrow> error + pyfloat" where
  "float_of_int k =
     (case to_double (of_int k) of Finite r \<Rightarrow> Inr (Finite r) | _ \<Rightarrow> Inl OverflowError)"

definition as_float :: "pynum \<Rightarrow> error + pyfloat" where
  "as_float n = (case n of PyInt k \<Rightarrow> float_of_int k | PyFloat x \<Rightarrow> Inr x)"

fun fl_sign :: "pyfloat \<Rightarrow> int" where
  "fl_sign (Finite x) = (if x = 0 then 0 else if 0 < x then 1 else - 1)"
| "fl_sign PInf = 1"
| "fl_sign NInf = - 1"
| "fl_sign NaN = 0"

definition fl_mul :: "pyfloat \<Rightarrow> pyfloat \<Rightarrow> pyfloat" where
  "fl_mul a b =
     (case (a, b) of
        (Finite x, Finite y) \<Rightarrow> to_double (x * y)
      | (NaN, _) \<Rightarrow> NaN
      | (_, NaN) \<Rightarrow> NaN
      | _ \<Rightarrow> (let s = fl_sign a * fl_sign b
              in if s = 0 then NaN else if 0 < s then PInf else NInf))"

definition fl_add :: "pyfloat \<Rightarrow> pyfloat \<Rightarrow> pyfloat" where
  "fl_add a b =
     (case (a, b) of
        (Finite x, Finite y) \<Rightarrow> to_double (x + y)
      | (NaN, _) \<Rightarrow> NaN
      | (_, NaN) \<Rightarrow> NaN
      | (PInf, NInf) \<Rightarrow> NaN
      | (NInf, PInf) \<Rightarrow> NaN
      | (Finite x, i) \<Rightarrow> i
      | (i, _) \<Rightarrow> i)"

text \<open>Float division; Python raises \<open>ZeroDivisionError\<close> for a zero divisor.\<close>

definition fl_div :: "pyfloat \<Rightarrow> pyfloat \<Rightarrow> error + pyfloat" where
  "fl_div a b =
     (case (a, b) of
        (NaN, Finite y) \<Rightarrow> (if y = 0 then Inl ZeroDivisionError else Inr NaN)
      | (NaN, _) \<Rightarrow> Inr NaN
      | (_, NaN) \<Rightarrow> Inr NaN
      | (Finite x, Finite y) \<Rightarrow>
          (if y = 0 then Inl ZeroDivisionError else Inr (to_double (x / y)))
      | (Finite x, _) \<Rightarrow> Inr (Finite 0)
      | (i, Finite y) \<Rightarrow>
          (if y = 0 then Inl ZeroDivisionError
           else Inr (if 0 < fl_sign i * fl_sign (Finite y) then PInf else NInf))
      | _ \<Rightarrow> Inr NaN)"

text \<open>The sum type's bind: the first exception raised wins.\<close>

definition bind_e :: "error + 'a \<Rightarrow> ('a \<Rightarrow> error + 'b) \<Rightarrow> error + 'b" where
  "bind_e r f = (case r of Inl e \<Rightarrow> Inl e | Inr x \<Rightarrow> f x)"

text \<open>
  \<open>a / b\<close>: on two integers the correctly rounded quotient, with \<open>OverflowError\<close> when it
  is too large for a float; otherwise both operands become floats.
\<close>

definition py_truediv :: "pynum \<Rightarrow> pynum \<Rightarrow> error + pyfloat" where
  "py_truediv a b =
     (case (a, b) of
        (PyInt x, PyInt y) \<Rightarrow>
          (if y = 0 then Inl ZeroDivisionError
           else (case to_double (of_int x / of_int y) of
                   Finite r \<Rightarrow> Inr (Finite r) | _ \<Rightarrow> Inl OverflowError))
      | _ \<Rightarrow> bind_e (as_float a) (\<lambda>x. bind_e (as_float b) (\<lambda>y. fl_div x y)))"

text \<open>\<open>a * b\<close> and \<open>a + b\<close>: exact on two integers, float arithmetic otherwise.\<close>

definition py_mul :: "pynum \<Rightarrow> pynum \<Rightarrow> error + pynum" where
  "py_mul a b =
     (case (a, b) of
        (PyInt x, PyInt y) \<Rightarrow> Inr (PyInt (x * y))
      | _ \<Rightarrow> bind_e (as_float a) (\<lambda>x. bind_e (as_float b) (\<lambda>y. Inr (PyFloat (fl_mul x y)))))"

definition py_add :: "pynum \<Rightarrow> pynum \<Rightarrow> error + pynum" where
  "py_add a b =
     (case (a, b) of
        (PyInt x, PyInt y) \<Rightarrow> Inr (PyInt (x + y))
      | _ \<Rightarrow> bind_e (as_float a) (\<lambda>x. bind_e (as_float b) (\<lambda>y. Inr (PyFloat (fl_add x y)))))"

text \<open>
  \<open>a < b\<close> compares the numbers exactly (Python does not round an integer to compare it
  with a float); every comparison with NaN is false.
\<close>

fun fl_lt :: "pyfloat \<Rightarrow> pyfloat \<Rightarrow> bool" where
  "fl_lt NaN _ = False"
| "fl_lt _ NaN = False"
| "fl_lt (Finite x) (Finite y) = (x < y)"
| "fl_lt NInf NInf = False"
| "fl_lt NInf _ = True"
| "fl_lt _ NInf = False"
| "fl_lt PInf _ = False"
| "fl_lt _ PInf = True"

definition exact :: "pynum \<Rightarrow> pyfloat" where
  "exact n = (case n of PyInt k \<Rightarrow> Finite (of_int k) | PyFloat x \<Rightarrow> x)"

definition py_lt :: "pynum \<Rightarrow> pynum \<Rightarrow> bool" where
  "py_lt a b = fl_lt (exact a) (exact b)"

text \<open>\<open>min(a, b)\<close> and \<open>max(a, b)\<close> return the first argument unless the second beats it.\<close>

definition py_min :: "pynum \<Rightarrow> pynum \<Rightarrow> pynum" where
  "py_min a b = (if py_lt b a then b else a)"

definition py_max :: "pynum \<Rightarrow> pynum \<Rightarrow> pynum" where
  "py_max a b = (if py_lt a b then b else a)"

text \<open>
  \<open>int(x)\<close>: truncation towards zero; \<open>OverflowError\<close> on an infinity and \<open>ValueError\<close>
  on NaN.
\<close>

definition trunc_rat :: "rat \<Rightarrow> int" where
  "trunc_rat x = (if 0 \<le> x then \<lfloor>x\<rfloor> else - \<lfloor>- x\<rfloor>)"

definition py_int :: "pynum \<Rightarrow> error + int" where
  "py_int n =
     (case n of
        PyInt k \<Rightarrow> Inr k
      | PyFloat (Finite x) \<Rightarrow> Inr (trunc_rat x)
      | PyFloat NaN \<Rightarrow> Inl ValueError
      | PyFloat _ \<Rightarrow> Inl OverflowError)"

section \<open>Python strings\<close>

text \<open>
  A Python \<open>str\<close> is a sequence of code points (natural numbers below \<open>0x110000\<close>); its
  length is its number of code points.  \<open>str s\<close> is the \<open>str\<close> written as the literal \<open>s\<close>.
  The attributes that the code only compares with its own literals (\<open>message_type\<close>,
  \<open>transaction_type\<close>, \<open>network_type\<close>) are kept as literals.

  \<open>encode_utf8\<close> is \<open>str.encode('utf-8')\<close>: one to four bytes for each code point, and
  \<open>UnicodeEncodeError\<close> if the string holds a surrogate code point (\<open>0xD800\<close> to \<open>0xDFFF\<close>).
  \<open>hex\<close> is \<open>bytes.hex()\<close>: two lower-case hexadecimal digits per byte.
\<close>

type_synonym pystr = "nat list"

definition str :: "string \<Rightarrow> pystr" where
  "str s = map of_char s"

definition utf8_char :: "nat \<Rightarrow> bytes" where
  "utf8_char c =
     (if c < 0x80 then [of_nat c]
      else if c < 0x800 then [of_nat (0xC0 + c div 64), of_nat (0x80 + c mod 64)]
      else if c < 0x10000
      then [of_nat (0xE0 + c div 4096), of_nat (0x80 + c div 64 mod 64),
            of_nat (0x80 + c mod 64)]
      else [of_nat (0xF0 + c div 262144), of_nat (0x80 + c div 4096 mod 64),
            of_nat (0x80 + c div 64 mod 64), of_nat (0x80 + c mod 64)])"

definition is_surrogate :: "nat \<Rightarrow> bool" where
  "is_surrogate c = (0xD800 \<le> c \<and> c < 0xE000)"

definition encode_utf8 :: "pystr \<Rightarrow> error + bytes" where
  "encode_utf8 s =
     (if list_ex is_surrogate s then Inl UnicodeEncodeError
      else Inr (concat (map utf8_char s)))"

definition hex_digit :: "nat \<Rightarrow> nat" where
  "hex_digit d = str ''0123456789abcdef'' ! d"

definition hex_byte :: "byte \<Rightarrow> pystr" where
  "hex_byte b = [hex_digit (unat b div 16), hex_digit (unat b mod 16)]"

definition hex :: "bytes \<Rightarrow> pystr" where
  "hex bs = concat (map hex_byte bs)"

text \<open>
  The expression \<open>x.encode('utf-8').hex().encode('utf-8')\<close>, which the source applies to
  the message (in \<open>set_message_info\<close>) and to the address (in \<open>get_address\<close>).
\<close>

definition encode_hex_encode :: "pystr \<Rightarrow> error + bytes" where
  "encode_hex_encode x = bind_e (encode_utf8 x) (\<lambda>b. encode_utf8 (hex b))"

text \<open>
  \<open>int(s, 16)\<close>.  CPython first rewrites the string to ASCII: a code point below 127 is
  kept, any other Unicode white-space character becomes a blank, any other character with
  a decimal digit value becomes that ASCII digit (the table below is the one of Unicode
  14.0: each entry is the code point of a digit zero and is followed by the digits one to
  nine), and any other character becomes \<open>?\<close>, which the parser rejects.  Then it
  parses: optional ASCII white space, an optional sign, an optional \<open>0x\<close> or \<open>0X\<close> prefix
  that may be followed by one underscore, then hexadecimal digits with single underscores
  between them, then optional ASCII white space up to the end of the string.  Anything
  else raises \<open>ValueError\<close>.
\<close>

definition unicode_spaces :: "nat list" where
  "unicode_spaces =
     [0x85, 0xA0, 0x1680, 0x2000, 0x2001, 0x2002, 0x2003, 0x2004, 0x2005, 0x2006, 0x2007,
      0x2008, 0x2009, 0x200A, 0x2028, 0x2029, 0x202F, 0x205F, 0x3000]"

definition decimal_zeros :: "nat list" where
  "decimal_zeros =
     [0x660, 0x6F0, 0x7C0, 0x966, 0x9E6, 0xA66, 0xAE6, 0xB66,
      0xBE6, 0xC66, 0xCE6, 0xD66, 0xDE6, 0xE50, 0xED0, 0xF20,
      0x1040, 0x1090, 0x17E0, 0x1810, 0x1946, 0x19D0, 0x1A80, 0x1A90,
      0x1B50, 0x1BB0, 0x1C40, 0x1C50, 0xA620, 0xA8D0, 0xA900, 0xA9D0,
      0xA9F0, 0xAA50, 0xABF0, 0xFF10, 0x104A0, 0x10D30, 0x11066, 0x110F0,
      0x11136, 0x111D0, 0x112F0, 0x11450, 0x114D0, 0x11650, 0x116C0, 0x11730,
      0x118E0, 0x11950, 0x11C50, 0x11D50, 0x11DA0, 0x16A60, 0x16AC0, 0x16B50,
      0x1D7CE, 0x1D7D8, 0x1D7E2, 0x1D7EC, 0x1D7F6, 0x1E140, 0x1E2F0, 0x1E950,
      0x1FBF0]"

definition to_decimal :: "nat \<Rightarrow> nat option" where
  "to_decimal c =
     (case find (\<lambda>z. z \<le> c \<and> c < z + 10) decimal_zeros of
        None \<Rightarrow> None
      | Some z \<Rightarrow> Some (c - z))"

definition to_ascii :: "nat \<Rightarrow> nat" where
  "to_ascii c =
     (if c < 127 then c
      else if c \<in> set unicode_spaces then 32
      else (case to_decimal c of Some d \<Rightarrow> 48 + d | None \<Rightarrow> 63))"

definition is_space :: "nat \<Rightarrow> bool" where
  "is_space c = (c \<in> {9, 10, 11, 12, 13, 32})"

definition digit_value :: "nat \<Rightarrow> nat option" where
  "digit_value n =
     (if 48 \<le> n \<and> n \<le> 57 then Some (n - 48)
      else if 97 \<le> n \<and> n \<le> 102 then Some (n - 87)
      else if 65 \<le> n \<and> n \<le> 70 then Some (n - 55)
      else None)"

definition is_digit_or_underscore :: "nat \<Rightarrow> bool" where
  "is_digit_or_underscore c = (digit_value c \<noteq> None \<or> c = 95)"

fun double_underscore :: "pystr \<Rightarrow> bool" where
  "double_underscore (a # b # r) =
     ((a = 95 \<and> b = 95) \<or> double_underscore (b # r))"
| "double_underscore _ = False"

definition digits_value :: "pystr \<Rightarrow> int" where
  "digits_value ds = foldl (\<lambda>acc c. 16 * acc + int (the (digit_value c))) 0 ds"

definition strip_sign :: "pystr \<Rightarrow> bool \<times> pystr" where
  "strip_sign t =
     (case t of
        [] \<Rightarrow> (False, [])
      | c # r \<Rightarrow> if c = 43 then (False, r)
                else if c = 45 then (True, r)
                else (False, t))"

definition strip_prefix16 :: "pystr \<Rightarrow> pystr" where
  "strip_prefix16 t =
     (case t of
        a # b # r \<Rightarrow>
          if a = 48 \<and> (b = 120 \<or> b = 88)
          then (case r of u # r' \<Rightarrow> if u = 95 then r' else r | [] \<Rightarrow> r)
          else t
      | _ \<Rightarrow> t)"

definition py_int16 :: "pystr \<Rightarrow> error + int" where
  "py_int16 s =
     (let (neg, t) = strip_sign (dropWhile is_space (map to_ascii s));
          t = strip_prefix16 t;
          body = takeWhile is_digit_or_underscore t;
          rest = dropWhile is_digit_or_underscore t;
          ds = filter (\<lambda>c. c \<noteq> 95) body
      in if body = [] \<or> hd body = 95 \<or> last body = 95
            \<or> double_underscore body \<or> \<not> list_all is_space rest
         then Inl ValueError
         else Inr (if neg then - digits_value ds else digits_value ds))"

section \<open>The transaction builder\<close>

text \<open>The module-level table \<open>TRANSACTION_TYPE\<close>.\<close>

definition TRANSACTION_TYPE :: "(string \<times> int) list" where
  "TRANSACTION_TYPE =
     [(''transfer'', 0x0101),
      (''importance_transfer'', 0x0801),
      (''multisig_aggregate_modification'', 0x1001),
      (''multisig_signature'', 0x1002),
      (''multisig'', 0x1004),
      (''provision_namespace'', 0x2001),
      (''mosaic_definition_creation'', 0x4001),
      (''mosaic_supply_change'', 0x4002)]"

text \<open>
  An attribute that holds a \<open>str\<close> at first and \<open>bytes\<close> later (\<open>message_type\<close>) is a
  \<open>pyobj\<close>.  The attributes \<open>payload\<close>, \<open>message_field\<close> and \<open>payload_length\<close> do not exist
  until a method assigns them: they are \<open>None\<close> until then, and reading one that does not
  exist raises \<open>AttributeError\<close>.
\<close>

datatype pyobj = Str string | Bytes bytes

record TransactionCreator =
  nem_to_micronem :: pynum
  deadline_span :: int
  public_key :: pystr
  amount :: pynum
  address :: pystr
  message :: "pystr option"
  message_type :: pyobj
  transaction_type :: string
  network_type :: string
  common_data :: bytes
  transfer_data :: bytes
  payload :: "bytes option"
  message_field :: "bytes option"
  payload_length :: "bytes option"

text \<open>\<open>__init__\<close>, all seven arguments given.\<close>

definition init ::
  "pystr \<Rightarrow> pynum \<Rightarrow> pystr \<Rightarrow> pystr option \<Rightarrow> string \<Rightarrow> string \<Rightarrow> string
     \<Rightarrow> TransactionCreator" where
  "init pk amt addr msg mtype ttype ntype =
     \<lparr> nem_to_micronem = PyFloat (float_lit 1000000),
       deadline_span = 3600,
       public_key = pk,
       amount = amt,
       address = addr,
       message = msg,
       message_type = Str mtype,
       transaction_type = ttype,
       network_type = ntype,
       common_data = [],
       transfer_data = [],
       payload = None,
       message_field = None,
       payload_length = None \<rparr>"

text \<open>The truth value of \<open>self.message\<close>: false for \<open>None\<close> and for the empty string.\<close>

definition truthy :: "pystr option \<Rightarrow> bool" where
  "truthy m = (case m of None \<Rightarrow> False | Some s \<Rightarrow> s \<noteq> [])"

text \<open>
  A method that assigns attributes returns its result (or the exception) together with
  the object as it is when the method returns or raises.
\<close>

type_synonym 'a outcome = "(error + 'a) \<times> TransactionCreator"

text \<open>\<open>int(len(payload)/2)\<close>, as written in \<open>set_message_info\<close> and in \<open>calc_fee\<close>.\<close>

definition half_length :: "bytes \<Rightarrow> error + int" where
  "half_length p =
     bind_e (py_truediv (PyInt (int (length p))) (PyInt 2)) (\<lambda>q. py_int (PyFloat q))"

definition set_message_info :: "TransactionCreator \<Rightarrow> unit outcome" where
  "set_message_info self =
     (case (if message_type self = Str ''plane'' then convert_number_to_byte 1 4
            else if message_type self = Str ''encryption'' then convert_number_to_byte 2 4
            else Inl (Exception ''Invalid message type. Select plane or encryption!'')) of
        Inl e \<Rightarrow> (Inl e, self)
      | Inr tag \<Rightarrow>
          (let self1 = self\<lparr>message_type := Bytes tag\<rparr>
           in case message self1 of
                None \<Rightarrow> (Inl AttributeError, self1)
              | Some m \<Rightarrow>
                  (case encode_hex_encode m of
                     Inl e \<Rightarrow> (Inl e, self1)
                   | Inr p \<Rightarrow>
                       (let self2 = self1\<lparr>payload := Some p\<rparr>
                        in case half_length p of
                             Inl e \<Rightarrow> (Inl e, self2)
                           | Inr pl \<Rightarrow>
                               (case convert_number_to_byte (4 + 4 + pl) 4 of
                                  Inl e \<Rightarrow> (Inl e, self2)
                                | Inr mf \<Rightarrow>
                                    (let self3 = self2\<lparr>message_field := Some mf\<rparr>
                                     in case convert_number_to_byte pl 4 of
                                          Inl e \<Rightarrow> (Inl e, self3)
                                        | Inr plb \<Rightarrow>
                                            (Inr (), self3\<lparr>payload_length := Some plb\<rparr>)))))))"

definition get_transaction_type :: "TransactionCreator \<Rightarrow> error + bytes" where
  "get_transaction_type self =
     (case map_of TRANSACTION_TYPE (transaction_type self) of
        None \<Rightarrow> Inl KeyError
      | Some v \<Rightarrow> convert_number_to_byte v 4)"

definition get_version :: "TransactionCreator \<Rightarrow> error + bytes" where
  "get_version self =
     (let version = (if network_type self = ''main'' then 0x68 * 2 ^ 24 else 0x98 * 2 ^ 24);
          transaction_types = [''transfer'', ''multisig_aggregate_modification''];
          version = (if transaction_type self \<in> set transaction_types
                     then version + 2 else version + 1)
      in convert_number_to_byte version 4)"

definition get_publickey_length :: "TransactionCreator \<Rightarrow> error + bytes" where
  "get_publickey_length self = convert_number_to_byte 32 4"

text \<open>
  \<open>calc_utc_timestamp\<close> reads the wall clock; its result, the whole seconds since
  2015-03-29 00:06:25 UTC, is the argument \<open>now\<close> of the two methods that call it.
\<close>

definition get_timestamp :: "int \<Rightarrow> TransactionCreator \<Rightarrow> error + bytes" where
  "get_timestamp now self = convert_number_to_byte now 4"

definition get_publickey :: "TransactionCreator \<Rightarrow> error + bytes" where
  "get_publickey self =
     bind_e (py_int16 (public_key self)) (\<lambda>key. convert_number_to_byte key 32)"

text \<open>The local variables \<open>transfer_fee\<close> and \<open>message_fee\<close> of \<open>calc_fee\<close>.\<close>

definition transfer_fee :: "pynum \<Rightarrow> error + pynum" where
  "transfer_fee amt =
     (let minimum_fee = PyFloat (float_lit (5 / 100));
          maximum_fee = PyFloat (float_lit (125 / 100));
          base_amount = PyInt 10000;
          fee_per_base_amount = PyFloat (float_lit (5 / 100))
      in bind_e (py_truediv amt base_amount) (\<lambda>q.
         bind_e (py_int (PyFloat q)) (\<lambda>k.
         bind_e (py_mul (PyInt k) fee_per_base_amount) (\<lambda>fee.
         Inr (py_max (py_min fee maximum_fee) minimum_fee)))))"

definition message_fee :: "TransactionCreator \<Rightarrow> error + pynum" where
  "message_fee self =
     (let base_message_size = PyInt 32;
          fee_per_base_message = PyFloat (float_lit (5 / 100))
      in if \<not> truthy (message self) then Inr (PyInt 0)
         else (case payload self of
                 None \<Rightarrow> Inl AttributeError
               | Some p \<Rightarrow>
                   bind_e (half_length p) (\<lambda>pl.
                   bind_e (py_truediv (PyInt pl) base_message_size) (\<lambda>q.
                   bind_e (py_int (PyFloat q)) (\<lambda>n.
                   py_mul fee_per_base_message (PyInt (1 + n)))))))"

definition calc_fee :: "TransactionCreator \<Rightarrow> error + bytes" where
  "calc_fee self =
     bind_e (transfer_fee (amount self)) (\<lambda>tf.
     bind_e (message_fee self) (\<lambda>mf.
     bind_e (py_add tf mf) (\<lambda>s.
     bind_e (py_mul s (nem_to_micronem self)) (\<lambda>fee.
     bind_e (py_int fee) (\<lambda>i. convert_number_to_byte i 8)))))"

definition get_deadline :: "int \<Rightarrow> TransactionCreator \<Rightarrow> error + bytes" where
  "get_deadline now self = convert_number_to_byte (now + deadline_span self) 4"

definition get_address_length :: "TransactionCreator \<Rightarrow> error + bytes" where
  "get_address_length self = convert_number_to_byte 40 4"

definition get_address :: "TransactionCreator \<Rightarrow> error + bytes" where
  "get_address self = encode_hex_encode (address self)"

definition get_amount :: "TransactionCreator \<Rightarrow> error + bytes" where
  "get_amount self =
     bind_e (py_mul (amount self) (nem_to_micronem self)) (\<lambda>a.
     bind_e (py_int a) (\<lambda>i. convert_number_to_byte i 8))"

text \<open>Reading an attribute that may not exist yet.\<close>

definition attr :: "(TransactionCreator \<Rightarrow> bytes option) \<Rightarrow> TransactionCreator \<Rightarrow> error + bytes" where
  "attr f self = (case f self of None \<Rightarrow> Inl AttributeError | Some b \<Rightarrow> Inr b)"

text \<open>
  The statements \<open>self.common_data += e\<close> and \<open>self.transfer_data += e\<close>: if evaluating \<open>e\<close>
  raises, nothing is assigned.
\<close>

definition add_common ::
  "(TransactionCreator \<Rightarrow> error + bytes) \<Rightarrow> TransactionCreator \<Rightarrow> unit outcome" where
  "add_common e self =
     (case e self of
        Inl err \<Rightarrow> (Inl err, self)
      | Inr b \<Rightarrow> (Inr (), self\<lparr>common_data := common_data self @ b\<rparr>))"

definition add_transfer ::
  "(TransactionCreator \<Rightarrow> error + bytes) \<Rightarrow> TransactionCreator \<Rightarrow> unit outcome" where
  "add_transfer e self =
     (case e self of
        Inl err \<Rightarrow> (Inl err, self)
      | Inr b \<Rightarrow> (Inr (), self\<lparr>transfer_data := transfer_data self @ b\<rparr>))"

text \<open>
  A block of statements runs in order and stops at the first exception.  (Appending a
  \<open>str\<close> to \<open>bytes\<close>, which \<open>run\<close> would do if \<open>message_type\<close> still held its text, raises
  \<open>TypeError\<close>.)
\<close>

fun block :: "(TransactionCreator \<Rightarrow> unit outcome) list \<Rightarrow> TransactionCreator \<Rightarrow> unit outcome" where
  "block [] self = (Inr (), self)"
| "block (st # sts) self =
     (case st self of
        (Inl e, self') \<Rightarrow> (Inl e, self')
      | (Inr u, self') \<Rightarrow> block sts self')"

text \<open>
  \<open>run\<close>.  \<open>now1\<close> and \<open>now2\<close> are the clock readings of its two calls of
  \<open>calc_utc_timestamp\<close> (in \<open>get_timestamp\<close> and in \<open>get_deadline\<close>).
\<close>

definition step1 :: "TransactionCreator \<Rightarrow> unit outcome" where
  "step1 self =
     (if truthy (message self) then set_message_info self
      else (case convert_number_to_byte 0 4 of
              Inl e \<Rightarrow> (Inl e, self)
            | Inr b \<Rightarrow> (Inr (), self\<lparr>message_field := Some b\<rparr>)))"

definition step3_message :: "TransactionCreator \<Rightarrow> unit outcome" where
  "step3_message self =
     (if truthy (message self)
      then block
             [add_transfer (\<lambda>s. case message_type s of
                                  Bytes b \<Rightarrow> Inr b
                                | Str t \<Rightarrow> Inl TypeError),
              add_transfer (attr payload_length),
              add_transfer (attr payload)] self
      else (Inr (), self))"

definition run :: "int \<Rightarrow> int \<Rightarrow> TransactionCreator \<Rightarrow> bytes outcome" where
  "run now1 now2 self =
     (case block
             [step1,
              add_common get_transaction_type,
              add_common get_version,
              add_common (get_timestamp now1),
              add_common get_publickey_length,
              add_common get_publickey,
              add_common calc_fee,
              add_common (get_deadline now2),
              add_transfer get_address_length,
              add_transfer get_address,
              add_transfer get_amount,
              add_transfer (attr message_field),
              step3_message] self of
        (Inl e, self') \<Rightarrow> (Inl e, self')
      | (Inr u, self') \<Rightarrow> (Inr (common_data self' @ transfer_data self'), self'))"


text \<open>Two values used to exercise the model: a 64-digit key and a 40-character address.\<close>

abbreviation example_key :: pystr where
  "example_key \<equiv> str ''0123456789abcdef0123456789abcdef0123456789abcdef0123456789abcdef''"

abbreviation example_address :: pystr where
  "example_address \<equiv> str ''TALICELCD3XPH4FFI5STGGNSNSWPOTG5E4DS2TOS''"

section \<open>Properties of the scalar encoder\<close>

lemma bind_e_simps [simp]: "bind_e (Inl e) f = Inl e" "bind_e (Inr x) f = f x"
  by (simp_all add: bind_e_def)

lemma length_le_bytes: "length (le_bytes n v) = n"
  by (induction n arbitrary: v) simp_all

lemma uint_byte_of_mod: "uint (word_of_int (v mod 256) :: byte) = v mod 256"
  by (simp add: uint_word_of_int)

lemma from_bytes_le_bytes: "from_bytes_little (le_bytes n v) = v mod 2 ^ (8 * n)"
proof (induction n arbitrary: v)
  case 0
  show ?case by simp
next
  case (Suc n)
  have "from_bytes_little (le_bytes (Suc n) v) = v mod 256 + 256 * ((v div 256) mod 2 ^ (8 * n))"
    by (simp add: uint_byte_of_mod Suc.IH)
  also have "\<dots> = v mod (256 * 2 ^ (8 * n))"
    by (simp add: zmod_zmult2_eq)
  also have "(256 :: int) * 2 ^ (8 * n) = 2 ^ (8 * Suc n)"
    by (simp add: power_add)
  finally show ?case .
qed

lemma nth_le_bytes:
  "i < n \<Longrightarrow> le_bytes n v ! i = word_of_int ((v div 256 ^ i) mod 256)"
proof (induction n arbitrary: v i)
  case 0
  then show ?case by simp
next
  case (Suc n)
  show ?case
  proof (cases i)
    case 0
    then show ?thesis by simp
  next
    case (Suc j)
    with Suc.prems have "j < n" by simp
    then have "le_bytes n (v div 256) ! j = word_of_int (((v div 256) div 256 ^ j) mod 256)"
      by (rule Suc.IH)
    then show ?thesis
      using Suc by (simp add: zdiv_zmult2_eq)
  qed
qed

lemma convert_number_to_byte_Inr:
  "0 \<le> v \<Longrightarrow> v < 2 ^ (8 * n) \<Longrightarrow> convert_number_to_byte v n = Inr (le_bytes n v)"
  by (simp add: convert_number_to_byte_def to_bytes_little_def)

lemma convert_number_to_byte_length:
  "convert_number_to_byte v n = Inr bs \<Longrightarrow> length bs = n"
  by (auto simp: convert_number_to_byte_def to_bytes_little_def length_le_bytes
           split: if_splits)

lemma convert_number_to_byte_decode:
  "convert_number_to_byte v n = Inr bs \<Longrightarrow> from_bytes_little bs = v"
  by (auto simp: convert_number_to_byte_def to_bytes_little_def from_bytes_le_bytes
           split: if_splits)

section \<open>Properties of the rounding\<close>

lemma pow2_powi: "pow2 e = 2 powi e"
  by (simp add: pow2_def power_int_def power_one_over inverse_eq_divide)

lemma pow2_pos [simp]: "0 < pow2 e"
  by (simp add: pow2_powi zero_less_power_int)

lemma pow2_nz [simp]: "pow2 e \<noteq> 0"
  by (simp add: pow2_def)

lemma pow2_nonneg [simp]: "0 \<le> pow2 e"
  by (simp add: pow2_def)

lemma pow2_numeral: "pow2 (numeral n) = 2 ^ numeral n"
  by (simp add: pow2_def)

lemma pow2_add: "pow2 (a + b) = pow2 a * pow2 b"
  by (simp add: pow2_powi power_int_add)

lemma pow2_mono: "a \<le> b \<Longrightarrow> pow2 a \<le> pow2 b"
  by (simp add: pow2_powi power_int_increasing)

lemma pow2_strict_mono: "a < b \<Longrightarrow> pow2 a < pow2 b"
  by (simp add: pow2_powi power_int_strict_increasing)

lemma pow2_less_cancel: "pow2 a < pow2 b \<Longrightarrow> a < b"
  using pow2_mono [of b a] by (cases "a < b") auto

lemma pow2_nat: "pow2 (int n) = 2 ^ n"
  by (simp add: pow2_def)

lemma pow2_0 [simp]: "pow2 0 = 1"
  by (simp add: pow2_def)

lemma pow2_diff: "pow2 (a - b) = pow2 a / pow2 b"
proof -
  have "pow2 (a - b) * pow2 b = pow2 a"
    using pow2_add [of "a - b" b] by simp
  then show ?thesis
    by (simp add: eq_divide_eq)
qed

lemma bitlen_bounds: "0 < n \<Longrightarrow> 2 ^ (bitlen n - 1) \<le> n \<and> n < 2 ^ bitlen n"
proof (induction n rule: bitlen.induct)
  case (1 n)
  show ?case
  proof (cases "n div 2 = 0")
    case True
    with 1(2) have "n = 1" by (simp add: div_eq_0_iff)
    then show ?thesis by (simp add: bitlen.simps)
  next
    case False
    then have pos: "0 < n div 2" by simp
    from 1(2) have n0: "n \<noteq> 0" by simp
    from 1(1)[OF n0 pos] have ih: "2 ^ (bitlen (n div 2) - 1) \<le> n div 2" "n div 2 < 2 ^ bitlen (n div 2)"
      by simp_all
    have b: "bitlen n = Suc (bitlen (n div 2))" using n0 by (simp add: bitlen.simps)
    have bpos: "0 < bitlen (n div 2)" using pos by (simp add: bitlen.simps[of "n div 2"])
    then obtain j where j: "bitlen (n div 2) = Suc j" by (cases "bitlen (n div 2)") auto
    from ih j have "2 * 2 ^ j \<le> 2 * (n div 2)" by simp
    also have "\<dots> \<le> n" by simp
    finally have lo: "2 ^ (bitlen n - 1) \<le> n" by (simp add: b j)
    from ih(2) have "n div 2 + 1 \<le> 2 ^ bitlen (n div 2)" by simp
    then have "2 * (n div 2) + 2 \<le> 2 * 2 ^ bitlen (n div 2)" by simp
    moreover have "n < 2 * (n div 2) + 2" by arith
    ultimately have hi: "n < 2 ^ bitlen n" by (simp add: b)
    from lo hi show ?thesis by simp
  qed
qed

lemma bitlen_pos: "0 < n \<Longrightarrow> 0 < bitlen n"
  by (simp add: bitlen.simps [of n])

lemma ilog2_bounds:
  assumes "0 < x"
  shows "pow2 (ilog2 x) \<le> x \<and> x < pow2 (ilog2 x + 1)"
proof -
  obtain p q where pq: "quotient_of x = (p, q)" by (cases "quotient_of x")
  then have q: "0 < q" and x: "x = of_int p / of_int q"
    by (simp_all add: quotient_of_denom_pos quotient_of_div)
  from assms x q have p: "0 < p" by (simp add: zero_less_divide_iff)
  define bp where "bp = bitlen (nat p)"
  define bq where "bq = bitlen (nat q)"
  define d where "d = int bp - int bq"
  have bp: "2 ^ (bp - 1) \<le> nat p" "nat p < 2 ^ bp" "0 < bp"
    using bitlen_bounds [of "nat p"] bitlen_pos [of "nat p"] p by (simp_all add: bp_def)
  have bq: "2 ^ (bq - 1) \<le> nat q" "nat q < 2 ^ bq" "0 < bq"
    using bitlen_bounds [of "nat q"] bitlen_pos [of "nat q"] q by (simp_all add: bq_def)
  have P1: "(2::rat) ^ (bp - 1) \<le> of_int p"
  proof -
    have "(2::rat) ^ (bp - 1) = of_nat (2 ^ (bp - 1))" by simp
    also have "\<dots> \<le> of_nat (nat p)" using bp(1) by (simp only: of_nat_le_iff)
    also have "\<dots> = of_int p" using p by simp
    finally show ?thesis .
  qed
  have P2: "of_int p < (2::rat) ^ bp"
  proof -
    have "of_int p = (of_nat (nat p) :: rat)" using p by simp
    also have "\<dots> < of_nat (2 ^ bp)" using bp(2) by (simp only: of_nat_less_iff)
    finally show ?thesis by simp
  qed
  have Q1: "(2::rat) ^ (bq - 1) \<le> of_int q"
  proof -
    have "(2::rat) ^ (bq - 1) = of_nat (2 ^ (bq - 1))" by simp
    also have "\<dots> \<le> of_nat (nat q)" using bq(1) by (simp only: of_nat_le_iff)
    also have "\<dots> = of_int q" using q by simp
    finally show ?thesis .
  qed
  have Q2: "of_int q < (2::rat) ^ bq"
  proof -
    have "of_int q = (of_nat (nat q) :: rat)" using q by simp
    also have "\<dots> < of_nat (2 ^ bq)" using bq(2) by (simp only: of_nat_less_iff)
    finally show ?thesis by simp
  qed
  have qpos: "(0::rat) < of_int q" using q by simp
  have up: "x < pow2 (d + 1)"
  proof -
    have "pow2 (d + 1) = pow2 (int bp) / pow2 (int (bq - 1))"
      using bq(3) by (simp add: d_def pow2_diff [symmetric] of_nat_diff algebra_simps)
    also have "\<dots> = 2 ^ bp / 2 ^ (bq - 1)" by (simp add: pow2_nat)
    finally have e: "pow2 (d + 1) = 2 ^ bp / 2 ^ (bq - 1)" .
    have "x * 2 ^ (bq - 1) \<le> x * of_int q"
      using Q1 assms by (simp add: mult_left_mono)
    also have "\<dots> = of_int p" using x qpos by simp
    also have "\<dots> < 2 ^ bp" by (rule P2)
    finally show ?thesis
      unfolding e by (simp add: pos_less_divide_eq)
  qed
  have lo: "pow2 (d - 1) < x"
  proof -
    have "pow2 (d - 1) = pow2 (int (bp - 1)) / pow2 (int bq)"
      using bp(3) by (simp add: d_def pow2_diff [symmetric] of_nat_diff algebra_simps)
    also have "\<dots> = 2 ^ (bp - 1) / 2 ^ bq" by (simp add: pow2_nat)
    finally have e: "pow2 (d - 1) = 2 ^ (bp - 1) / 2 ^ bq" .
    have "(2::rat) ^ (bp - 1) \<le> of_int p" by (rule P1)
    also have "\<dots> = x * of_int q" using x qpos by simp
    also have "\<dots> < x * 2 ^ bq" using Q2 assms by (simp add: mult_strict_left_mono)
    finally show ?thesis
      unfolding e by (simp add: pos_divide_less_eq)
  qed
  have il: "ilog2 x = (if pow2 d \<le> x then d else d - 1)"
    by (simp add: ilog2_def pq Let_def d_def bp_def bq_def)
  show ?thesis
  proof (cases "pow2 d \<le> x")
    case True
    with il up show ?thesis by simp
  next
    case False
    with il lo show ?thesis by simp
  qed
qed

lemma ilog2_unique:
  assumes "pow2 k \<le> x" "x < pow2 (k + 1)"
  shows "ilog2 x = k"
proof -
  have xpos: "0 < x" using assms(1) pow2_pos [of k] by linarith
  from ilog2_bounds [OF xpos] have b: "pow2 (ilog2 x) \<le> x" "x < pow2 (ilog2 x + 1)" by simp_all
  have "pow2 k < pow2 (ilog2 x + 1)" using assms(1) b(2) by linarith
  then have 1: "k < ilog2 x + 1" by (rule pow2_less_cancel)
  have "pow2 (ilog2 x) < pow2 (k + 1)" using assms(2) b(1) by linarith
  then have 2: "ilog2 x < k + 1" by (rule pow2_less_cancel)
  from 1 2 show ?thesis by simp
qed

lemma rhe_int [simp]: "round_half_even (of_int n) = n"
  by (simp add: round_half_even_def)

lemma rhe_ge: "of_int n \<le> z \<Longrightarrow> n \<le> round_half_even z"
proof -
  assume "of_int n \<le> z"
  then have "n \<le> \<lfloor>z\<rfloor>" by (simp add: le_floor_iff)
  then show ?thesis by (simp add: round_half_even_def Let_def)
qed

lemma rhe_le: "z \<le> of_int n \<Longrightarrow> round_half_even z \<le> n"
proof (cases "z = of_int \<lfloor>z\<rfloor>")
  case True
  assume "z \<le> of_int n"
  then have "\<lfloor>z\<rfloor> \<le> n" by (simp add: floor_le_iff)
  moreover have "round_half_even z = \<lfloor>z\<rfloor>"
    using True by (simp add: round_half_even_def Let_def)
  ultimately show ?thesis by simp
next
  case False
  assume le: "z \<le> of_int n"
  have "of_int \<lfloor>z\<rfloor> < z" using False of_int_floor_le [of z] by linarith
  with le have "(of_int \<lfloor>z\<rfloor> :: rat) < of_int n" by linarith
  then have "\<lfloor>z\<rfloor> < n" by (simp only: of_int_less_iff)
  then show ?thesis by (simp add: round_half_even_def Let_def)
qed

lemma rhe_below_half:
  assumes "of_int m \<le> z" "z < of_int m + 1 / 2"
  shows "round_half_even z = m"
proof -
  have "\<lfloor>z\<rfloor> = m" using assms by (intro floor_unique) linarith+
  then show ?thesis using assms by (simp add: round_half_even_def Let_def)
qed

lemma of_int_pow2_shift:
  assumes "g \<le> e"
  shows "of_int m * pow2 e / pow2 g = of_int (m * 2 ^ nat (e - g))"
proof -
  have "pow2 e / pow2 g = pow2 (e - g)" by (simp add: pow2_diff)
  also have "\<dots> = 2 ^ nat (e - g)" using assms by (simp add: pow2_def)
  finally show ?thesis by (simp add: times_divide_eq_right [symmetric] del: times_divide_eq_right)
qed

lemma div_pow2_mult: "x / pow2 g * pow2 g = x"
  by simp

lemma div_pow2_mono: "a \<le> b \<Longrightarrow> a / pow2 g \<le> b / pow2 g"
  by (rule divide_right_mono) simp_all

lemma mult_pow2_mono: "a \<le> b \<Longrightarrow> a * pow2 g \<le> b * pow2 g"
  by (rule mult_right_mono) simp_all

lemma mult_pow2_strict_mono: "a < b \<Longrightarrow> a * pow2 g < b * pow2 g"
  by (rule mult_strict_right_mono) simp_all

lemma pow2_53: "2 ^ 53 * pow2 e = pow2 (53 + e)" "of_int (2 ^ 53) * pow2 e = pow2 (53 + e)"
  by (simp_all add: pow2_add pow2_numeral)

lemma pow2_52: "2 ^ 52 * pow2 e = pow2 (52 + e)" "of_int (2 ^ 52) * pow2 e = pow2 (52 + e)"
  by (simp_all add: pow2_add pow2_numeral)

lemma round_pos_upper:
  assumes y: "0 < y" and m: "m < 2 ^ 53" and e: "- 1074 \<le> e"
    and le: "y \<le> of_int m * pow2 e"
  shows "round_pos y \<le> of_int m * pow2 e"
proof -
  define g where "g = max (ilog2 y - 52) (- 1074)"
  have "pow2 (ilog2 y) \<le> y" using ilog2_bounds [OF y] by simp
  also have "y \<le> of_int m * pow2 e" by (rule le)
  also have "\<dots> < of_int (2 ^ 53) * pow2 e"
  proof -
    have "(of_int m :: rat) < of_int (2 ^ 53)" using m by (simp only: of_int_less_iff)
    then show ?thesis by (rule mult_pow2_strict_mono)
  qed
  also have "\<dots> = pow2 (53 + e)" by (rule pow2_53)
  finally have "ilog2 y < 53 + e" by (rule pow2_less_cancel)
  with e have ge: "g \<le> e" by (simp add: g_def)
  have "y / pow2 g \<le> of_int m * pow2 e / pow2 g"
    using le by (rule div_pow2_mono)
  also have "\<dots> = of_int (m * 2 ^ nat (e - g))" by (rule of_int_pow2_shift [OF ge])
  finally have "round_half_even (y / pow2 g) \<le> m * 2 ^ nat (e - g)" by (rule rhe_le)
  then have "(of_int (round_half_even (y / pow2 g)) :: rat) \<le> of_int (m * 2 ^ nat (e - g))"
    by (simp only: of_int_le_iff)
  then have "of_int (round_half_even (y / pow2 g)) * pow2 g \<le> of_int (m * 2 ^ nat (e - g)) * pow2 g"
    by (rule mult_pow2_mono)
  also have "\<dots> = of_int m * pow2 e / pow2 g * pow2 g"
    by (simp only: of_int_pow2_shift [OF ge])
  also have "\<dots> = of_int m * pow2 e" by (rule div_pow2_mult)
  finally show ?thesis by (simp add: round_pos_def g_def Let_def)
qed

lemma round_pos_lower:
  assumes m0: "0 < m" and m: "m < 2 ^ 53" and e: "- 1074 \<le> e"
    and le: "of_int m * pow2 e \<le> y"
  shows "of_int m * pow2 e \<le> round_pos y"
proof -
  define g where "g = max (ilog2 y - 52) (- 1074)"
  have dpos: "0 < of_int m * pow2 e" using m0 by simp
  with le have y: "0 < y" by linarith
  have rp: "round_pos y = of_int (round_half_even (y / pow2 g)) * pow2 g"
    by (simp add: round_pos_def g_def Let_def)
  show ?thesis
  proof (cases "g \<le> e")
    case True
    have "of_int (m * 2 ^ nat (e - g)) = of_int m * pow2 e / pow2 g"
      by (rule of_int_pow2_shift [OF True, symmetric])
    also have "\<dots> \<le> y / pow2 g" using le by (rule div_pow2_mono)
    finally have "m * 2 ^ nat (e - g) \<le> round_half_even (y / pow2 g)" by (rule rhe_ge)
    then have "(of_int (m * 2 ^ nat (e - g)) :: rat) \<le> of_int (round_half_even (y / pow2 g))"
      by (simp only: of_int_le_iff)
    then have le1: "of_int (m * 2 ^ nat (e - g)) * pow2 g \<le> of_int (round_half_even (y / pow2 g)) * pow2 g"
      by (rule mult_pow2_mono)
    have eq1: "of_int (m * 2 ^ nat (e - g)) * pow2 g = of_int m * pow2 e"
      by (simp only: of_int_pow2_shift [OF True, symmetric] div_pow2_mult)
    show ?thesis using le1 unfolding rp eq1 .
  next
    case False
    with e have g: "g = ilog2 y - 52" and eg: "e < g" by (simp_all add: g_def)
    have "pow2 (ilog2 y) / pow2 g = pow2 52"
      by (simp add: g pow2_diff [symmetric])
    then have "of_int (2 ^ 52) = pow2 (ilog2 y) / pow2 g"
      by (simp add: pow2_numeral)
    also have "\<dots> \<le> y / pow2 g"
      using ilog2_bounds [OF y] by (intro div_pow2_mono) simp
    finally have "2 ^ 52 \<le> round_half_even (y / pow2 g)" by (rule rhe_ge)
    then have "(of_int (2 ^ 52) :: rat) \<le> of_int (round_half_even (y / pow2 g))"
      by (simp only: of_int_le_iff)
    then have "of_int (2 ^ 52) * pow2 g \<le> round_pos y"
      unfolding rp by (rule mult_pow2_mono)
    moreover have "of_int m * pow2 e \<le> of_int (2 ^ 52) * pow2 g"
    proof -
      have "(of_int m :: rat) \<le> of_int (2 ^ 53)" using m by (simp only: of_int_le_iff)
      then have "of_int m * pow2 e \<le> of_int (2 ^ 53) * pow2 e" by (rule mult_pow2_mono)
      also have "\<dots> = pow2 (53 + e)" by (rule pow2_53)
      also have "\<dots> \<le> pow2 (52 + g)" using eg by (intro pow2_mono) simp
      also have "\<dots> = of_int (2 ^ 52) * pow2 g" by (rule pow2_52 [symmetric])
      finally show ?thesis .
    qed
    ultimately show ?thesis by linarith
  qed
qed

lemma round_pos_exact:
  assumes "0 < m" "m < 2 ^ 53" "- 1074 \<le> e"
  shows "round_pos (of_int m * pow2 e) = of_int m * pow2 e"
proof -
  have pos: "0 < of_int m * pow2 e" using assms(1) by simp
  have "round_pos (of_int m * pow2 e) \<le> of_int m * pow2 e"
    by (rule round_pos_upper [OF pos assms(2,3)]) simp
  moreover have "of_int m * pow2 e \<le> round_pos (of_int m * pow2 e)"
    by (rule round_pos_lower [OF assms]) simp
  ultimately show ?thesis by simp
qed

lemma round_pos_eval:
  assumes "pow2 k \<le> x" "x < pow2 (k + 1)" "- 1022 \<le> k"
  shows "round_pos x = of_int (round_half_even (x / pow2 (k - 52))) * pow2 (k - 52)"
proof -
  have "max (k - 52) (- 1074) = k - 52" using assms(3) by simp
  then show ?thesis
    by (simp add: round_pos_def ilog2_unique [OF assms(1,2)] Let_def)
qed

lemma round_pos_below_mid:
  assumes m1: "2 ^ 52 \<le> m" and m2: "m < 2 ^ 53" and e: "- 1074 \<le> e"
    and lo: "of_int m * pow2 e \<le> y" and hi: "y < (of_int m + 1 / 2) * pow2 e"
  shows "round_pos y = of_int m * pow2 e"
proof -
  have "pow2 (52 + e) = of_int (2 ^ 52) * pow2 e" by (rule pow2_52 [symmetric])
  also have "\<dots> \<le> of_int m * pow2 e"
  proof -
    have "(of_int (2 ^ 52) :: rat) \<le> of_int m" using m1 by (simp only: of_int_le_iff)
    then show ?thesis by (rule mult_pow2_mono)
  qed
  finally have k1: "pow2 (52 + e) \<le> y" using lo by linarith
  have "(of_int m :: rat) + 1 \<le> of_int (2 ^ 53)"
  proof -
    have "m + 1 \<le> 2 ^ 53" using m2 by simp
    then have "(of_int (m + 1) :: rat) \<le> of_int (2 ^ 53)" by (simp only: of_int_le_iff)
    then show ?thesis by simp
  qed
  then have "(of_int m + 1 / 2 :: rat) < of_int (2 ^ 53)" by simp
  then have "(of_int m + 1 / 2) * pow2 e < of_int (2 ^ 53) * pow2 e"
    by (rule mult_pow2_strict_mono)
  also have "\<dots> = pow2 (52 + e + 1)"
  proof -
    have "52 + e + 1 = 53 + e" by simp
    then show ?thesis by (simp only: pow2_53)
  qed
  finally have k2: "y < pow2 (52 + e + 1)" using hi by linarith
  have il: "ilog2 y = 52 + e" by (rule ilog2_unique [OF k1 k2])
  have g: "max (ilog2 y - 52) (- 1074) = e" using e by (simp add: il)
  have a: "of_int m \<le> y / pow2 e" using lo by (simp add: pos_le_divide_eq)
  have b: "y / pow2 e < of_int m + 1 / 2" using hi by (simp add: pos_divide_less_eq)
  show ?thesis
    by (simp add: round_pos_def g Let_def rhe_below_half [OF a b])
qed

lemma round_pos_repr:
  assumes y: "0 < y"
  shows "\<exists>n g. round_pos y = of_int n * pow2 g \<and> 0 \<le> n \<and> n \<le> 2 ^ 53 \<and> - 1074 \<le> g"
proof -
  define g where "g = max (ilog2 y - 52) (- 1074)"
  define n where "n = round_half_even (y / pow2 g)"
  have rp: "round_pos y = of_int n * pow2 g"
    by (simp add: round_pos_def g_def n_def Let_def)
  have "y < pow2 (ilog2 y + 1)" using ilog2_bounds [OF y] by simp
  also have "\<dots> \<le> pow2 (53 + g)" by (intro pow2_mono) (simp add: g_def)
  also have "\<dots> = of_int (2 ^ 53) * pow2 g" by (rule pow2_53 [symmetric])
  finally have "y / pow2 g \<le> of_int (2 ^ 53)" by (simp add: pos_divide_le_eq)
  then have "n \<le> 2 ^ 53" unfolding n_def by (rule rhe_le)
  moreover have "0 \<le> n"
    unfolding n_def by (rule rhe_ge) (use y in simp)
  moreover have "- 1074 \<le> g" by (simp add: g_def)
  ultimately show ?thesis using rp by blast
qed

lemma rhe_nearest:
  assumes "\<bar>z - of_int n\<bar> < 1 / 2"
  shows "round_half_even z = n"
proof (cases "of_int n \<le> z")
  case True
  with assms have "z < of_int n + 1 / 2" by linarith
  with True show ?thesis by (rule rhe_below_half)
next
  case False
  with assms have b: "of_int n - 1 / 2 < z" "z < of_int n" by linarith+
  have f: "\<lfloor>z\<rfloor> = n - 1" using b by (intro floor_unique) simp_all
  have "1 / 2 < z - of_int (n - 1)" using b by simp
  then show ?thesis by (simp add: round_half_even_def f Let_def)
qed

lemma round_pos_cert:
  assumes "pow2 k \<le> x" "x < pow2 (k + 1)" "- 1022 \<le> k"
    and "\<bar>x / pow2 (k - 52) - of_int n\<bar> < 1 / 2"
  shows "round_pos x = of_int n * pow2 (k - 52)"
  by (simp add: round_pos_eval [OF assms(1-3)] rhe_nearest [OF assms(4)])

lemma rd_005: "round_double (5 / 100) = 3602879701896397 / 72057594037927936"
proof -
  have "round_pos (5 / 100) = of_int 7205759403792794 * pow2 (- 5 - 52)"
    by (rule round_pos_cert) (simp_all add: pow2_def)
  then show ?thesis by (simp add: round_double_def pow2_def)
qed

lemma round_double_of_int: "0 \<le> n \<Longrightarrow> n < 2 ^ 53 \<Longrightarrow> round_double (of_int n) = of_int n"
  using round_pos_exact [of n 0] by (cases "n = 0") (simp_all add: round_double_def)

lemma to_double_finite:
  "- (2 ^ 1024) < round_double x \<Longrightarrow> round_double x < 2 ^ 1024 \<Longrightarrow> to_double x = Finite (round_double x)"
  by (simp add: to_double_def Let_def)

lemma to_double_of_int: 
  assumes "0 \<le> n" "n < 2 ^ 53" shows "to_double (of_int n) = Finite (of_int n)"
proof -
  have r: "round_double (of_int n) = of_int n" by (rule round_double_of_int [OF assms])
  have "(of_int n :: rat) < of_int (2 ^ 53)" using assms(2) by (simp only: of_int_less_iff)
  then have "(of_int n :: rat) < 2 ^ 1024" by simp
  moreover have "- (2 ^ 1024) < (of_int n :: rat)" using assms(1) by (simp add: less_le_trans [of _ 0])
  ultimately show ?thesis by (simp add: to_double_finite r)
qed

lemma float_lit_005: "float_lit (5 / 100) = Finite (3602879701896397 / 72057594037927936)"
proof -
  have "to_double (5 / 100) = Finite (round_double (5 / 100))"
    by (rule to_double_finite) (simp_all only: rd_005, simp_all)
  then show ?thesis by (simp only: float_lit_def rd_005)
qed

lemma round_pos_nonneg: "0 < y \<Longrightarrow> 0 \<le> round_pos y"
proof -
  assume "0 < y"
  from round_pos_repr [OF this] obtain n g where
    "round_pos y = of_int n * pow2 g" "0 \<le> n" by blast
  then show ?thesis by simp
qed

lemma round_double_nonneg: "0 \<le> y \<Longrightarrow> 0 \<le> round_double y"
  by (cases "y = 0") (simp_all add: round_double_def round_pos_nonneg)

lemma round_double_pos: "0 < y \<Longrightarrow> round_double y = round_pos y"
  by (simp add: round_double_def)

lemma round_double_upper:
  assumes "0 \<le> y" "0 < m" "m < 2 ^ 53" "- 1074 \<le> e" "y \<le> of_int m * pow2 e"
  shows "round_double y \<le> of_int m * pow2 e"
proof (cases "y = 0")
  case True
  then show ?thesis using assms(2) by (simp add: round_double_def)
next
  case False
  with assms(1) have "0 < y" by simp
  then show ?thesis
    using round_pos_upper [OF _ assms(3,4,5)] by (simp add: round_double_def)
qed

lemma round_double_lower:
  assumes "0 < m" "m < 2 ^ 53" "- 1074 \<le> e" "of_int m * pow2 e \<le> y"
  shows "of_int m * pow2 e \<le> round_double y"
proof -
  have "0 < of_int m * pow2 e" using assms(1) by simp
  with assms(4) have "0 < y" by linarith
  then show ?thesis
    using round_pos_lower [OF assms] by (simp add: round_double_def)
qed

lemma round_double_exact:
  assumes "0 < m" "m < 2 ^ 53" "- 1074 \<le> e"
  shows "round_double (of_int m * pow2 e) = of_int m * pow2 e"
proof -
  have "0 < of_int m * pow2 e" using assms(1) by simp
  then show ?thesis by (simp add: round_double_def round_pos_exact [OF assms])
qed

lemma to_double_exact:
  assumes "0 < m" "m < 2 ^ 53" "- 1074 \<le> e" "e \<le> 970"
  shows "to_double (of_int m * pow2 e) = Finite (of_int m * pow2 e)"
proof -
  have r: "round_double (of_int m * pow2 e) = of_int m * pow2 e"
    by (rule round_double_exact [OF assms(1-3)])
  have "(of_int m :: rat) \<le> of_int (2 ^ 53)" using assms(2) by (simp only: of_int_le_iff)
  then have "of_int m * pow2 e \<le> of_int (2 ^ 53) * pow2 e" by (rule mult_pow2_mono)
  also have "\<dots> = pow2 (53 + e)" by (rule pow2_53)
  also have "\<dots> \<le> pow2 1023" using assms(4) by (intro pow2_mono) simp
  also have "\<dots> < 2 ^ 1024" by (simp add: pow2_numeral)
  finally have hi: "of_int m * pow2 e < 2 ^ 1024" .
  have "(0::rat) < of_int m * pow2 e" using assms(1) by simp
  then have lo: "- (2 ^ 1024) < of_int m * pow2 e" by (simp add: less_trans [of _ 0])
  show ?thesis using to_double_finite [of "of_int m * pow2 e"] hi lo by (simp only: r)
qed

lemma to_double_0 [simp]: "to_double 0 = Finite 0"
  by (simp add: to_double_def round_double_def)

lemma to_double_cert:
  assumes "pow2 k \<le> x" "x < pow2 (k + 1)" "- 1022 \<le> k" "k \<le> 1022"
    and "\<bar>x / pow2 (k - 52) - of_int n\<bar> < 1 / 2"
  shows "to_double x = Finite (of_int n * pow2 (k - 52))"
proof -
  have x: "0 < x" using assms(1) pow2_pos [of k] by linarith
  have r: "round_double x = of_int n * pow2 (k - 52)"
    using round_pos_cert [OF assms(1,2,3,5)] x by (simp add: round_double_def)
  have "round_double x \<le> of_int 1 * pow2 (k + 1)"
    by (rule round_double_upper) (use x assms in simp_all)
  also have "\<dots> \<le> pow2 1023" using assms(4) by (simp add: pow2_mono)
  also have "\<dots> < 2 ^ 1024" by (simp add: pow2_numeral)
  finally have hi: "round_double x < 2 ^ 1024" .
  have "0 \<le> round_double x" using x by (simp add: round_double_nonneg)
  then have lo: "- (2 ^ 1024) < round_double x" by (simp add: less_le_trans [of _ 0])
  show ?thesis using to_double_finite [OF lo hi] by (simp only: r)
qed

lemma float_lit_125: "float_lit (125 / 100) = Finite (5 / 4)"
  using to_double_exact [of 5 "- 2"] by (simp add: float_lit_def pow2_def)

lemma float_lit_1000000: "float_lit 1000000 = Finite 1000000"
  using to_double_of_int [of 1000000] by (simp add: float_lit_def)

lemma float_of_int_small: "0 \<le> n \<Longrightarrow> n < 2 ^ 53 \<Longrightarrow> float_of_int n = Inr (Finite (of_int n))"
  by (simp add: float_of_int_def to_double_of_int)

lemma trunc_rat_of_int [simp]: "trunc_rat (of_int n) = n"
  by (simp add: trunc_rat_def)

lemma floor_rat_numeral:
  "\<lfloor>(numeral a :: rat) / numeral b\<rfloor> = numeral a div numeral b"
  using floor_divide_of_int_eq [of "numeral a" "numeral b", where ?'a = rat] by simp

lemma trunc_rat_of_nat [simp]: "trunc_rat (of_nat n) = int n"
  by (simp add: trunc_rat_def)

lemma half_length_even:
  assumes "length p = 2 * L" "L < 2 ^ 53"
  shows "half_length p = Inr (int L)"
proof -
  have "(of_int (int (length p)) :: rat) / of_int 2 = of_int (int L)"
    using assms(1) by simp
  moreover have "to_double (of_int (int L)) = Finite (of_int (int L))"
    by (rule to_double_of_int) (use assms(2) in simp_all)
  ultimately have "py_truediv (PyInt (int (length p))) (PyInt 2) = Inr (Finite (of_int (int L)))"
    by (simp add: py_truediv_def)
  then show ?thesis by (simp add: half_length_def py_int_def)
qed

text \<open>The fee of 12 display units without a message.\<close>

lemma to_double_3_2500:
  "to_double (3 / 2500) = Finite (5534023222112865 / 4611686018427387904)"
  using to_double_cert [of "- 10" "3 / 2500" 5534023222112865] by (simp add: pow2_def)

lemma to_double_fee_50000:
  "to_double (3602879701896397 / 72057594037927936 * 1000000) = Finite 50000"
  using to_double_cert [of 15 "3602879701896397 / 72057594037927936 * 1000000" 6871947673600000]
  by (simp add: pow2_def)

lemma to_double_d005:
  "to_double (3602879701896397 / 72057594037927936) = Finite (3602879701896397 / 72057594037927936)"
  using to_double_exact [of 3602879701896397 "- 56"] by (simp add: pow2_def)

lemma transfer_fee_12:
  "transfer_fee (PyInt 12) = Inr (PyFloat (Finite (3602879701896397 / 72057594037927936)))"
  by (simp add: transfer_fee_def Let_def float_lit_005 [simplified] float_lit_125 [simplified]
      py_truediv_def to_double_3_2500 py_int_def trunc_rat_def py_mul_def as_float_def
      floor_rat_numeral
      float_of_int_def fl_mul_def py_min_def py_max_def py_lt_def exact_def)

lemma to_double_numeral:
  "numeral n < (2 :: int) ^ 53 \<Longrightarrow> to_double (numeral n) = Finite (numeral n)"
  using to_double_of_int [of "numeral n"] by simp

lemma calc_fee_12:
  assumes "amount s = PyInt 12" "\<not> truthy (message s)"
    "nem_to_micronem s = PyFloat (float_lit 1000000)"
  shows "calc_fee s = Inr (le_bytes 8 50000)"
  using assms
  by (simp add: calc_fee_def transfer_fee_12 message_fee_def Let_def float_lit_1000000
      py_add_def as_float_def float_of_int_def fl_add_def to_double_d005
      py_mul_def fl_mul_def to_double_fee_50000 [simplified] py_int_def trunc_rat_def
      convert_number_to_byte_def to_bytes_little_def)

lemma get_amount_12:
  assumes "amount s = PyInt 12" "nem_to_micronem s = PyFloat (float_lit 1000000)"
  shows "get_amount s = Inr (le_bytes 8 12000000)"
  using assms
  by (simp add: get_amount_def float_lit_1000000 py_mul_def as_float_def float_of_int_def
      to_double_numeral fl_mul_def py_int_def trunc_rat_def
      convert_number_to_byte_def to_bytes_little_def)

lemma py_int16_example_key:
  "py_int16 example_key =
     Inr 514631507721405306298073637848375664226723355710112857507800679889911926255"
  by (simp add: py_int16_def str_def to_ascii_def strip_sign_def strip_prefix16_def is_space_def
      is_digit_or_underscore_def digit_value_def digits_value_def Let_def)

section \<open>Properties of the string encodings\<close>

lemma str_eq_Nil [simp]: "(str s = []) = (s = [])"
  by (simp add: str_def)

lemma length_str [simp]: "length (str s) = length s"
  by (simp add: str_def)

lemma str_ascii: "\<forall>c \<in> set s. (of_char c :: nat) < 128 \<Longrightarrow> \<forall>c \<in> set (str s). c < 128"
  by (simp add: str_def)

lemma length_hex: "length (hex bs) = 2 * length bs"
  by (induction bs) (simp_all add: hex_def hex_byte_def)

lemma hex_digit_in: "d < 16 \<Longrightarrow> hex_digit d \<in> set (str ''0123456789abcdef'')"
  unfolding hex_digit_def by (rule nth_mem) (simp add: str_def)

lemma hex_chars: "c \<in> set (hex bs) \<Longrightarrow> c \<in> set (str ''0123456789abcdef'')"
proof (induction bs)
  case Nil
  then show ?case by (simp add: hex_def)
next
  case (Cons b bs)
  have d1: "unat b div 16 < 16"
    using unsigned_less [of b, where ?'a = nat] by (simp add: div_less_iff_less_mult)
  have d2: "unat b mod 16 < 16" by simp
  from Cons.prems have "c = hex_digit (unat b div 16) \<or> c = hex_digit (unat b mod 16) \<or> c \<in> set (hex bs)"
    by (auto simp: hex_def hex_byte_def)
  then show ?case
    using hex_digit_in [OF d1] hex_digit_in [OF d2] Cons.IH by blast
qed

lemma encode_utf8_ascii:
  "\<forall>c \<in> set s. c < 128 \<Longrightarrow> encode_utf8 s = Inr (map of_nat s)"
proof -
  assume a: "\<forall>c \<in> set s. c < 128"
  then have "\<not> list_ex is_surrogate s" by (auto simp: list_ex_iff is_surrogate_def)
  moreover from a have "concat (map utf8_char s) = map of_nat s"
    by (induction s) (simp_all add: utf8_char_def)
  ultimately show ?thesis by (simp add: encode_utf8_def)
qed

lemma hex_ascii: "c \<in> set (hex bs) \<Longrightarrow> c < 128"
  using hex_chars [of c bs] by (auto simp: str_def)

lemma encode_utf8_hex: "encode_utf8 (hex bs) = Inr (map of_nat (hex bs))"
  by (rule encode_utf8_ascii) (simp add: hex_ascii)

lemma encode_utf8_cases:
  "encode_utf8 x = Inl UnicodeEncodeError \<or> (\<exists>b. encode_utf8 x = Inr b)"
  by (simp add: encode_utf8_def)

lemma encode_hex_encode_Inr:
  "encode_utf8 x = Inr b \<Longrightarrow> encode_hex_encode x = Inr (map of_nat (hex b))"
  by (simp add: encode_hex_encode_def encode_utf8_hex)

lemma encode_hex_encode_Inl:
  "encode_utf8 x = Inl e \<Longrightarrow> encode_hex_encode x = Inl e"
  by (simp add: encode_hex_encode_def)

lemma encode_hex_encode_InrD:
  assumes "encode_hex_encode x = Inr p"
  shows "\<exists>b. encode_utf8 x = Inr b \<and> p = map of_nat (hex b) \<and> length p = 2 * length b"
  using assms
  by (cases "encode_utf8 x") (auto simp: encode_hex_encode_def encode_utf8_hex length_hex)

lemma encode_hex_encode_InlD:
  assumes "encode_hex_encode x = Inl e"
  shows "e = UnicodeEncodeError \<and> encode_utf8 x = Inl UnicodeEncodeError"
  using assms encode_utf8_cases [of x]
  by (auto simp: encode_hex_encode_def encode_utf8_hex)

lemma length_encode_utf8_ascii:
  "\<forall>c \<in> set s. c < 128 \<Longrightarrow> encode_utf8 s = Inr b \<Longrightarrow> length b = length s"
  by (auto simp: encode_utf8_ascii)

section \<open>Properties of the statements of \<open>run\<close>\<close>

lemma block_add_common [simp]:
  "block (add_common e # sts) s =
     (case e s of Inl err \<Rightarrow> (Inl err, s)
      | Inr b \<Rightarrow> block sts (s\<lparr>common_data := common_data s @ b\<rparr>))"
  by (simp add: add_common_def split: sum.splits)

lemma block_add_transfer [simp]:
  "block (add_transfer e # sts) s =
     (case e s of Inl err \<Rightarrow> (Inl err, s)
      | Inr b \<Rightarrow> block sts (s\<lparr>transfer_data := transfer_data s @ b\<rparr>))"
  by (simp add: add_transfer_def split: sum.splits)

lemma getters_common [simp]:
  "get_transaction_type (s\<lparr>common_data := c\<rparr>) = get_transaction_type s"
  "get_version (s\<lparr>common_data := c\<rparr>) = get_version s"
  "get_timestamp n (s\<lparr>common_data := c\<rparr>) = get_timestamp n s"
  "get_publickey_length (s\<lparr>common_data := c\<rparr>) = get_publickey_length s"
  "get_publickey (s\<lparr>common_data := c\<rparr>) = get_publickey s"
  "calc_fee (s\<lparr>common_data := c\<rparr>) = calc_fee s"
  "get_deadline n (s\<lparr>common_data := c\<rparr>) = get_deadline n s"
  "get_address_length (s\<lparr>common_data := c\<rparr>) = get_address_length s"
  "get_address (s\<lparr>common_data := c\<rparr>) = get_address s"
  "get_amount (s\<lparr>common_data := c\<rparr>) = get_amount s"
  by (simp_all add: get_transaction_type_def get_version_def get_timestamp_def
      get_publickey_length_def get_publickey_def calc_fee_def message_fee_def get_deadline_def
      get_address_length_def get_address_def get_amount_def)

lemma getters_transfer [simp]:
  "get_transaction_type (s\<lparr>transfer_data := c\<rparr>) = get_transaction_type s"
  "get_version (s\<lparr>transfer_data := c\<rparr>) = get_version s"
  "get_timestamp n (s\<lparr>transfer_data := c\<rparr>) = get_timestamp n s"
  "get_publickey_length (s\<lparr>transfer_data := c\<rparr>) = get_publickey_length s"
  "get_publickey (s\<lparr>transfer_data := c\<rparr>) = get_publickey s"
  "calc_fee (s\<lparr>transfer_data := c\<rparr>) = calc_fee s"
  "get_deadline n (s\<lparr>transfer_data := c\<rparr>) = get_deadline n s"
  "get_address_length (s\<lparr>transfer_data := c\<rparr>) = get_address_length s"
  "get_address (s\<lparr>transfer_data := c\<rparr>) = get_address s"
  "get_amount (s\<lparr>transfer_data := c\<rparr>) = get_amount s"
  by (simp_all add: get_transaction_type_def get_version_def get_timestamp_def
      get_publickey_length_def get_publickey_def calc_fee_def message_fee_def get_deadline_def
      get_address_length_def get_address_def get_amount_def)

lemma getters_message_field [simp]:
  "get_transaction_type (s\<lparr>message_field := c\<rparr>) = get_transaction_type s"
  "get_version (s\<lparr>message_field := c\<rparr>) = get_version s"
  "get_timestamp n (s\<lparr>message_field := c\<rparr>) = get_timestamp n s"
  "get_publickey_length (s\<lparr>message_field := c\<rparr>) = get_publickey_length s"
  "get_publickey (s\<lparr>message_field := c\<rparr>) = get_publickey s"
  "calc_fee (s\<lparr>message_field := c\<rparr>) = calc_fee s"
  "get_deadline n (s\<lparr>message_field := c\<rparr>) = get_deadline n s"
  "get_address_length (s\<lparr>message_field := c\<rparr>) = get_address_length s"
  "get_address (s\<lparr>message_field := c\<rparr>) = get_address s"
  "get_amount (s\<lparr>message_field := c\<rparr>) = get_amount s"
  by (simp_all add: get_transaction_type_def get_version_def get_timestamp_def
      get_publickey_length_def get_publickey_def calc_fee_def message_fee_def get_deadline_def
      get_address_length_def get_address_def get_amount_def)

lemma step1_no_message:
  "\<not> truthy (message s) \<Longrightarrow> step1 s = (Inr (), s\<lparr>message_field := Some (le_bytes 4 0)\<rparr>)"
  by (simp add: step1_def convert_number_to_byte_def to_bytes_little_def)

lemma block_step3_no_message:
  "\<not> truthy (message s) \<Longrightarrow> block [step3_message] s = (Inr (), s)"
  by (simp add: step3_message_def)

lemma block_step1:
  "block (step1 # sts) s =
     (case step1 s of (Inl e, s') \<Rightarrow> (Inl e, s') | (Inr u, s') \<Rightarrow> block sts s')"
  by simp

lemma run_no_message_result:
  assumes "\<not> truthy (message s)"
  shows "fst (run now1 now2 s) =
     bind_e (get_transaction_type s) (\<lambda>ty.
     bind_e (get_version s) (\<lambda>ver.
     bind_e (get_timestamp now1 s) (\<lambda>ts.
     bind_e (get_publickey_length s) (\<lambda>pl.
     bind_e (get_publickey s) (\<lambda>pk.
     bind_e (calc_fee s) (\<lambda>fee.
     bind_e (get_deadline now2 s) (\<lambda>dl.
     bind_e (get_address_length s) (\<lambda>al.
     bind_e (get_address s) (\<lambda>ad.
     bind_e (get_amount s) (\<lambda>am.
       Inr (common_data s @ ty @ ver @ ts @ pl @ pk @ fee @ dl
            @ transfer_data s @ al @ ad @ am @ le_bytes 4 0)))))))))))"
  using assms
  by (simp add: run_def block_step1 step1_no_message block_step3_no_message attr_def
           del: block.simps split: sum.splits)

lemma set_message_info_preserves:
  assumes "set_message_info s = (r, s1)"
  shows "common_data s1 = common_data s \<and> transfer_data s1 = transfer_data s
       \<and> message s1 = message s \<and> transaction_type s1 = transaction_type s
       \<and> network_type s1 = network_type s \<and> public_key s1 = public_key s
       \<and> amount s1 = amount s \<and> address s1 = address s
       \<and> nem_to_micronem s1 = nem_to_micronem s \<and> deadline_span s1 = deadline_span s"
  using assms
  by (auto simp: set_message_info_def Let_def split: sum.splits option.splits if_splits)

lemma step1_preserves:
  assumes "step1 s = (r, s1)"
  shows "common_data s1 = common_data s \<and> transfer_data s1 = transfer_data s
       \<and> message s1 = message s \<and> transaction_type s1 = transaction_type s
       \<and> network_type s1 = network_type s \<and> public_key s1 = public_key s
       \<and> amount s1 = amount s \<and> address s1 = address s
       \<and> nem_to_micronem s1 = nem_to_micronem s \<and> deadline_span s1 = deadline_span s"
proof (cases "truthy (message s)")
  case True
  with assms have "set_message_info s = (r, s1)" by (simp add: step1_def)
  then show ?thesis by (rule set_message_info_preserves)
next
  case False
  with assms show ?thesis by (auto simp: step1_no_message)
qed

lemma map_of_TRANSACTION_TYPE:
  "map_of TRANSACTION_TYPE k =
    (if k = ''transfer'' then Some 0x0101
     else if k = ''importance_transfer'' then Some 0x0801
     else if k = ''multisig_aggregate_modification'' then Some 0x1001
     else if k = ''multisig_signature'' then Some 0x1002
     else if k = ''multisig'' then Some 0x1004
     else if k = ''provision_namespace'' then Some 0x2001
     else if k = ''mosaic_definition_creation'' then Some 0x4001
     else if k = ''mosaic_supply_change'' then Some 0x4002
     else None)"
  by (simp add: TRANSACTION_TYPE_def)

lemma run_unknown_kind:
  assumes "map_of TRANSACTION_TYPE (transaction_type s) = None"
  shows "\<exists>e s'. run now1 now2 s = (Inl e, s') \<and> common_data s' = common_data s
            \<and> transfer_data s' = transfer_data s
            \<and> (fst (step1 s) = Inr () \<longrightarrow> e = KeyError)"
proof -
  obtain r s1 where st: "step1 s = (r, s1)" by (cases "step1 s")
  note pres = step1_preserves [OF st]
  show ?thesis
  proof (cases r)
    case (Inl e)
    with st have "run now1 now2 s = (Inl e, s1)"
      by (simp add: run_def block_step1 del: block.simps)
    with pres st Inl show ?thesis by simp
  next
    case (Inr u)
    have "get_transaction_type s1 = Inl KeyError"
      using assms pres by (simp add: get_transaction_type_def)
    with st Inr have "run now1 now2 s = (Inl KeyError, s1)"
      by (simp add: run_def block_step1 del: block.simps)
    with pres show ?thesis by simp
  qed
qed

lemma getters_message_type [simp]:
  "get_transaction_type (s\<lparr>message_type := c\<rparr>) = get_transaction_type s"
  "get_version (s\<lparr>message_type := c\<rparr>) = get_version s"
  "get_timestamp n (s\<lparr>message_type := c\<rparr>) = get_timestamp n s"
  "get_publickey_length (s\<lparr>message_type := c\<rparr>) = get_publickey_length s"
  "get_publickey (s\<lparr>message_type := c\<rparr>) = get_publickey s"
  "calc_fee (s\<lparr>message_type := c\<rparr>) = calc_fee s"
  "get_deadline n (s\<lparr>message_type := c\<rparr>) = get_deadline n s"
  "get_address_length (s\<lparr>message_type := c\<rparr>) = get_address_length s"
  "get_address (s\<lparr>message_type := c\<rparr>) = get_address s"
  "get_amount (s\<lparr>message_type := c\<rparr>) = get_amount s"
  by (simp_all add: get_transaction_type_def get_version_def get_timestamp_def
      get_publickey_length_def get_publickey_def calc_fee_def message_fee_def get_deadline_def
      get_address_length_def get_address_def get_amount_def)

lemma getters_payload_length [simp]:
  "get_transaction_type (s\<lparr>payload_length := c\<rparr>) = get_transaction_type s"
  "get_version (s\<lparr>payload_length := c\<rparr>) = get_version s"
  "get_timestamp n (s\<lparr>payload_length := c\<rparr>) = get_timestamp n s"
  "get_publickey_length (s\<lparr>payload_length := c\<rparr>) = get_publickey_length s"
  "get_publickey (s\<lparr>payload_length := c\<rparr>) = get_publickey s"
  "calc_fee (s\<lparr>payload_length := c\<rparr>) = calc_fee s"
  "get_deadline n (s\<lparr>payload_length := c\<rparr>) = get_deadline n s"
  "get_address_length (s\<lparr>payload_length := c\<rparr>) = get_address_length s"
  "get_address (s\<lparr>payload_length := c\<rparr>) = get_address s"
  "get_amount (s\<lparr>payload_length := c\<rparr>) = get_amount s"
  by (simp_all add: get_transaction_type_def get_version_def get_timestamp_def
      get_publickey_length_def get_publickey_def calc_fee_def message_fee_def get_deadline_def
      get_address_length_def get_address_def get_amount_def)

lemma getters_payload [simp]:
  "get_transaction_type (s\<lparr>payload := c\<rparr>) = get_transaction_type s"
  "get_version (s\<lparr>payload := c\<rparr>) = get_version s"
  "get_timestamp n (s\<lparr>payload := c\<rparr>) = get_timestamp n s"
  "get_publickey_length (s\<lparr>payload := c\<rparr>) = get_publickey_length s"
  "get_publickey (s\<lparr>payload := c\<rparr>) = get_publickey s"
  "get_deadline n (s\<lparr>payload := c\<rparr>) = get_deadline n s"
  "get_address_length (s\<lparr>payload := c\<rparr>) = get_address_length s"
  "get_address (s\<lparr>payload := c\<rparr>) = get_address s"
  "get_amount (s\<lparr>payload := c\<rparr>) = get_amount s"
  by (simp_all add: get_transaction_type_def get_version_def get_timestamp_def
      get_publickey_length_def get_publickey_def get_deadline_def
      get_address_length_def get_address_def get_amount_def)

lemma set_message_info_bad_type:
  assumes "message_type s \<noteq> Str ''plane''" "message_type s \<noteq> Str ''encryption''"
  shows "set_message_info s =
           (Inl (Exception ''Invalid message type. Select plane or encryption!''), s)"
  using assms by (simp add: set_message_info_def)

lemma set_message_info_Inr:
  assumes "set_message_info s = (Inr u, s1)"
  shows "\<exists>tag m p pl.
           (message_type s = Str ''plane'' \<and> tag = 1
             \<or> message_type s = Str ''encryption'' \<and> tag = 2)
         \<and> message s = Some m
         \<and> encode_hex_encode m = Inr p
         \<and> half_length p = Inr pl
         \<and> 0 \<le> pl \<and> 8 + pl < 2 ^ 32
         \<and> s1 = s\<lparr>message_type := Bytes (le_bytes 4 tag),
                   payload := Some p,
                   message_field := Some (le_bytes 4 (8 + pl)),
                   payload_length := Some (le_bytes 4 pl)\<rparr>"
  using assms
  by (auto simp: set_message_info_def Let_def convert_number_to_byte_def to_bytes_little_def
           split: if_splits option.splits sum.splits)

lemma set_message_info_ok:
  assumes "message_type s = Str ''plane'' \<and> tag = 1
             \<or> message_type s = Str ''encryption'' \<and> tag = 2"
    and "message s = Some m"
    and "encode_hex_encode m = Inr p"
    and "half_length p = Inr pl"
    and "0 \<le> pl" "8 + pl < 2 ^ 32"
  shows "set_message_info s =
           (Inr (), s\<lparr>message_type := Bytes (le_bytes 4 tag),
                   payload := Some p,
                   message_field := Some (le_bytes 4 (8 + pl)),
                   payload_length := Some (le_bytes 4 pl)\<rparr>)"
  using assms
  by (auto simp: set_message_info_def Let_def convert_number_to_byte_def to_bytes_little_def)

lemma block_step3_message:
  "truthy (message s) \<Longrightarrow>
   block [step3_message] s =
     block [add_transfer (\<lambda>s. case message_type s of Bytes b \<Rightarrow> Inr b | Str t \<Rightarrow> Inl TypeError),
            add_transfer (attr payload_length), add_transfer (attr payload)] s"
  by (simp add: step3_message_def split: prod.splits sum.splits)

lemma run_message_result:
  assumes "truthy (message s)" "set_message_info s = (Inr u, s1)"
  shows "fst (run now1 now2 s) =
     bind_e (get_transaction_type s) (\<lambda>ty.
     bind_e (get_version s) (\<lambda>ver.
     bind_e (get_timestamp now1 s) (\<lambda>ts.
     bind_e (get_publickey_length s) (\<lambda>pl.
     bind_e (get_publickey s) (\<lambda>pk.
     bind_e (calc_fee s1) (\<lambda>fee.
     bind_e (get_deadline now2 s) (\<lambda>dl.
     bind_e (get_address_length s) (\<lambda>al.
     bind_e (get_address s) (\<lambda>ad.
     bind_e (get_amount s) (\<lambda>am.
     bind_e (attr message_field s1) (\<lambda>mf.
     bind_e (case message_type s1 of Bytes b \<Rightarrow> Inr b | Str t \<Rightarrow> Inl TypeError) (\<lambda>mt.
     bind_e (attr payload_length s1) (\<lambda>plb.
     bind_e (attr payload s1) (\<lambda>p.
       Inr (common_data s @ ty @ ver @ ts @ pl @ pk @ fee @ dl
            @ transfer_data s @ al @ ad @ am @ mf @ mt @ plb @ p)))))))))))))))"
proof -
  from set_message_info_Inr [OF assms(2)] obtain tag m p pl where
    s1: "s1 = s\<lparr>message_type := Bytes (le_bytes 4 tag),
                   payload := Some p,
                   message_field := Some (le_bytes 4 (8 + pl)),
                   payload_length := Some (le_bytes 4 pl)\<rparr>"
    by blast
  have st: "step1 s = (Inr u, s1)" using assms by (simp add: step1_def)
  have tr: "truthy (message s1)" using assms(1) by (simp add: s1)
  show ?thesis
    using tr
    by (simp add: run_def block_step1 st block_step3_message s1 attr_def
             del: block.simps(2) split: sum.splits)
qed


lemma get_version_length: "get_version s = Inr b \<Longrightarrow> length b = 4"
  by (auto simp: get_version_def Let_def dest: convert_number_to_byte_length)

lemma get_publickey_length_32: "get_publickey s = Inr b \<Longrightarrow> length b = 32"
  by (auto simp: get_publickey_def bind_e_def split: sum.splits
           dest: convert_number_to_byte_length)

lemma calc_fee_length: "calc_fee s = Inr b \<Longrightarrow> length b = 8"
  by (auto simp: calc_fee_def bind_e_def split: sum.splits dest: convert_number_to_byte_length)

lemma get_amount_length: "get_amount s = Inr b \<Longrightarrow> length b = 8"
  by (auto simp: get_amount_def bind_e_def split: sum.splits dest: convert_number_to_byte_length)

lemma get_timestamp_Inr: "get_timestamp now s = Inr b \<Longrightarrow> b = le_bytes 4 now"
  by (auto simp: get_timestamp_def convert_number_to_byte_def to_bytes_little_def
           split: if_splits)

lemma get_deadline_Inr: "get_deadline now s = Inr b \<Longrightarrow> b = le_bytes 4 (now + deadline_span s)"
  by (auto simp: get_deadline_def convert_number_to_byte_def to_bytes_little_def
           split: if_splits)

lemma get_publickey_length_val: "get_publickey_length s = Inr (le_bytes 4 32)"
  by (simp add: get_publickey_length_def convert_number_to_byte_def to_bytes_little_def)

lemma get_address_length_val: "get_address_length s = Inr (le_bytes 4 40)"
  by (simp add: get_address_length_def convert_number_to_byte_def to_bytes_little_def)

lemma run_no_message_Inr:
  assumes "\<not> truthy (message s)" "run now1 now2 s = (Inr out, s')"
  shows "\<exists>H T. out = common_data s @ H @ transfer_data s @ T
            \<and> s' = s\<lparr>message_field := Some (le_bytes 4 0),
                      common_data := common_data s @ H,
                      transfer_data := transfer_data s @ T\<rparr>
            \<and> fst (run now1 now2 s')
                = Inr ((common_data s @ H) @ H @ (transfer_data s @ T) @ T)"
proof -
  from assms obtain ty ver ts pl pk fee dl al ad am where
    g: "get_transaction_type s = Inr ty" "get_version s = Inr ver"
       "get_timestamp now1 s = Inr ts" "get_publickey_length s = Inr pl"
       "get_publickey s = Inr pk" "calc_fee s = Inr fee" "get_deadline now2 s = Inr dl"
       "get_address_length s = Inr al" "get_address s = Inr ad" "get_amount s = Inr am"
    and s': "s' = s\<lparr>message_field := Some (le_bytes 4 0),
                      common_data := common_data s @ ty @ ver @ ts @ pl @ pk @ fee @ dl,
                      transfer_data := transfer_data s @ al @ ad @ am @ le_bytes 4 0\<rparr>"
    and out: "out = common_data s @ (ty @ ver @ ts @ pl @ pk @ fee @ dl)
                @ transfer_data s @ (al @ ad @ am @ le_bytes 4 0)"
    by (auto simp: run_def block_step1 step1_no_message block_step3_no_message attr_def
             simp del: block.simps(2) split: sum.splits)
  have nm': "\<not> truthy (message s')" using assms(1) by (simp add: s')
  have "fst (run now1 now2 s') =
     Inr ((common_data s @ ty @ ver @ ts @ pl @ pk @ fee @ dl) @ (ty @ ver @ ts @ pl @ pk @ fee @ dl)
          @ (transfer_data s @ al @ ad @ am @ le_bytes 4 0) @ (al @ ad @ am @ le_bytes 4 0))"
    unfolding run_no_message_result [OF nm'] by (simp add: s' g)
  with s' out show ?thesis
    by (intro exI [of _ "ty @ ver @ ts @ pl @ pk @ fee @ dl"]
              exI [of _ "al @ ad @ am @ le_bytes 4 0"]) simp
qed

section \<open>The message step and the type table\<close>

lemma run_step1_fails:
  "step1 s = (Inl e, s1) \<Longrightarrow> run now1 now2 s = (Inl e, s1)"
  by (simp add: run_def block_step1 del: block.simps)

lemma step1_bad_type:
  assumes "truthy (message s)"
    and "message_type s \<noteq> Str ''plane''" "message_type s \<noteq> Str ''encryption''"
  shows "step1 s = (Inl (Exception ''Invalid message type. Select plane or encryption!''), s)"
  using assms by (simp add: step1_def set_message_info_bad_type)

lemma half_length_payload:
  assumes "8 + int (length mb) < 2 ^ 32"
  shows "half_length (map of_nat (hex mb)) = Inr (int (length mb))"
proof (rule half_length_even)
  show "length (map of_nat (hex mb) :: bytes) = 2 * length mb"
    by (simp add: length_hex)
  have "int (length mb) < 2 ^ 53" using assms by simp
  then show "length mb < 2 ^ 53" by (simp only: of_nat_less_numeral_power_cancel_iff)
qed

lemma set_message_info_value:
  assumes "message_type s = Str ''plane'' \<and> tag = 1
             \<or> message_type s = Str ''encryption'' \<and> tag = 2"
    and "message s = Some m"
    and "encode_utf8 m = Inr mb"
    and "8 + int (length mb) < 2 ^ 32"
  shows "set_message_info s =
           (Inr (), s\<lparr>message_type := Bytes (le_bytes 4 tag),
                   payload := Some (map of_nat (hex mb)),
                   message_field := Some (le_bytes 4 (8 + int (length mb))),
                   payload_length := Some (le_bytes 4 (int (length mb)))\<rparr>)"
  by (rule set_message_info_ok [OF assms(1,2) encode_hex_encode_Inr [OF assms(3)]
        half_length_payload [OF assms(4)]])
     (use assms(4) in simp_all)

lemma step1_succeeds:
  assumes "\<not> truthy (message s)
           \<or> (message_type s = Str ''plane'' \<or> message_type s = Str ''encryption'')
              \<and> message s = Some m \<and> encode_utf8 m = Inr mb
              \<and> 8 + int (length mb) < 2 ^ 32"
  shows "fst (step1 s) = Inr ()"
proof (cases "truthy (message s)")
  case False
  then show ?thesis by (simp add: step1_no_message)
next
  case True
  with assms have a: "message_type s = Str ''plane'' \<or> message_type s = Str ''encryption''"
    and b: "message s = Some m" and e: "encode_utf8 m = Inr mb"
    and c: "8 + int (length mb) < 2 ^ 32"
    by auto
  from a have "\<exists>tag. message_type s = Str ''plane'' \<and> tag = (1::int)
             \<or> message_type s = Str ''encryption'' \<and> tag = 2" by auto
  then obtain tag :: int where "message_type s = Str ''plane'' \<and> tag = 1
             \<or> message_type s = Str ''encryption'' \<and> tag = 2" by blast
  from set_message_info_value [OF this b e c] True show ?thesis by (simp add: step1_def)
qed

lemma get_transaction_type_table:
  assumes "(transaction_type s, v) \<in> set TRANSACTION_TYPE"
  shows "get_transaction_type s = Inr (le_bytes 4 v)" "0 \<le> v" "v < 2 ^ 32"
  using assms
  by (auto simp: TRANSACTION_TYPE_def get_transaction_type_def convert_number_to_byte_def
        to_bytes_little_def)

lemma get_transaction_type_absent:
  assumes "transaction_type s \<notin> fst ` set TRANSACTION_TYPE"
  shows "map_of TRANSACTION_TYPE (transaction_type s) = None"
  using assms by (simp add: map_of_eq_None_iff)

lemma getters_address [simp]:
  "get_transaction_type (s\<lparr>address := c\<rparr>) = get_transaction_type s"
  "get_version (s\<lparr>address := c\<rparr>) = get_version s"
  "get_timestamp n (s\<lparr>address := c\<rparr>) = get_timestamp n s"
  "get_publickey_length (s\<lparr>address := c\<rparr>) = get_publickey_length s"
  "get_publickey (s\<lparr>address := c\<rparr>) = get_publickey s"
  "calc_fee (s\<lparr>address := c\<rparr>) = calc_fee s"
  "get_deadline n (s\<lparr>address := c\<rparr>) = get_deadline n s"
  "get_address_length (s\<lparr>address := c\<rparr>) = get_address_length s"
  "get_amount (s\<lparr>address := c\<rparr>) = get_amount s"
  by (simp_all add: get_transaction_type_def get_version_def get_timestamp_def
      get_publickey_length_def get_publickey_def calc_fee_def message_fee_def get_deadline_def
      get_address_length_def get_amount_def)

lemma set_message_info_address:
  "set_message_info (s\<lparr>address := a\<rparr>) =
     (case set_message_info s of (r, s1) \<Rightarrow> (r, s1\<lparr>address := a\<rparr>))"
  by (simp add: set_message_info_def Let_def split: sum.splits option.splits)

lemma set_message_info_unencodable:
  assumes "message_type s = Str ''plane'' \<or> message_type s = Str ''encryption''"
    and "message s = Some m"
    and "encode_utf8 m = Inl e"
  shows "fst (set_message_info s) = Inl e"
  using assms encode_hex_encode_Inl [OF assms(3)]
  by (auto simp: set_message_info_def Let_def convert_number_to_byte_def to_bytes_little_def)

lemma bind_e_Inr_iff:
  "(bind_e r f = Inr y) = (\<exists>x. r = Inr x \<and> f x = Inr y)"
  by (cases r) (simp_all add: bind_e_def)

lemma bind_e_Inl_iff:
  "(bind_e r f = Inl e) = (r = Inl e \<or> (\<exists>x. r = Inr x \<and> f x = Inl e))"
  by (cases r) (simp_all add: bind_e_def)

lemma get_address_Inr:
  "encode_utf8 (address s) = Inr ab \<Longrightarrow> get_address s = Inr (map of_nat (hex ab))"
  by (simp add: get_address_def encode_hex_encode_Inr)

lemma get_address_InrD:
  assumes "get_address s = Inr ad"
  shows "\<exists>ab. encode_utf8 (address s) = Inr ab \<and> ad = map of_nat (hex ab)
            \<and> length ad = 2 * length ab"
  using assms unfolding get_address_def by (rule encode_hex_encode_InrD)

lemma get_address_Inl:
  "encode_utf8 (address s) = Inl e \<Longrightarrow> get_address s = Inl e"
  by (simp add: get_address_def encode_hex_encode_Inl)

lemma run_address_irrelevant:
  assumes "encode_utf8 a = Inr ab" "encode_utf8 b = Inr bb"
  shows "(fst (run now1 now2 (s\<lparr>address := a\<rparr>)) = Inl e)
       = (fst (run now1 now2 (s\<lparr>address := b\<rparr>)) = Inl e)"
proof -
  have ga: "get_address (s\<lparr>address := a\<rparr>) = Inr (map of_nat (hex ab))"
    using assms(1) by (simp add: get_address_Inr)
  have gb: "get_address (s\<lparr>address := b\<rparr>) = Inr (map of_nat (hex bb))"
    using assms(2) by (simp add: get_address_Inr)
  show ?thesis
  proof (cases "truthy (message s)")
    case False
    then have nm: "\<not> truthy (message (s\<lparr>address := x\<rparr>))" for x by simp
    show ?thesis
      unfolding run_no_message_result [OF nm]
      by (simp add: bind_e_Inl_iff ga gb)
  next
    case True
    then have tm: "truthy (message (s\<lparr>address := x\<rparr>))" for x by simp
    obtain r s1 where st: "set_message_info s = (r, s1)" by (cases "set_message_info s")
    have sta: "set_message_info (s\<lparr>address := x\<rparr>) = (r, s1\<lparr>address := x\<rparr>)" for x
      by (simp add: set_message_info_address st)
    show ?thesis
    proof (cases r)
      case (Inl err)
      have "step1 (s\<lparr>address := x\<rparr>) = (Inl err, s1\<lparr>address := x\<rparr>)" for x
        using tm sta Inl by (simp add: step1_def)
      from run_step1_fails [OF this] show ?thesis by simp
    next
      case (Inr u)
      have "set_message_info (s\<lparr>address := x\<rparr>) = (Inr u, s1\<lparr>address := x\<rparr>)" for x
        using sta Inr by simp
      note r = run_message_result [OF tm this]
      show ?thesis
        unfolding r
        by (simp add: bind_e_Inl_iff ga gb attr_def)
    qed
  qed
qed

lemma bind_e_fails:
  assumes "\<And>x. r = Inr x \<Longrightarrow> \<exists>e. f x = Inl e \<and> (e = u \<or> g x = Inl e)"
  shows "\<exists>e. bind_e r f = Inl e \<and> (e = u \<or> bind_e r g = Inl e)"
  using assms by (cases r) simp_all

lemma run_address_unencodable:
  assumes "encode_utf8 a = Inl UnicodeEncodeError" "encode_utf8 b = Inr bb"
  shows "\<exists>e. fst (run now1 now2 (s\<lparr>address := a\<rparr>)) = Inl e
            \<and> (e = UnicodeEncodeError \<or> fst (run now1 now2 (s\<lparr>address := b\<rparr>)) = Inl e)"
proof -
  have ga: "get_address (s\<lparr>address := a\<rparr>) = Inl UnicodeEncodeError"
    using assms(1) by (simp add: get_address_Inl)
  have gb: "get_address (s\<lparr>address := b\<rparr>) = Inr (map of_nat (hex bb))"
    using assms(2) by (simp add: get_address_Inr)
  show ?thesis
  proof (cases "truthy (message s)")
    case False
    then have nm: "\<not> truthy (message (s\<lparr>address := x\<rparr>))" for x by simp
    show ?thesis
      unfolding run_no_message_result [OF nm] getters_address ga gb
      by (intro bind_e_fails) simp
  next
    case True
    then have tm: "truthy (message (s\<lparr>address := x\<rparr>))" for x by simp
    obtain r s1 where st: "set_message_info s = (r, s1)" by (cases "set_message_info s")
    have sta: "set_message_info (s\<lparr>address := x\<rparr>) = (r, s1\<lparr>address := x\<rparr>)" for x
      by (simp add: set_message_info_address st)
    show ?thesis
    proof (cases r)
      case (Inl err)
      have "step1 (s\<lparr>address := x\<rparr>) = (Inl err, s1\<lparr>address := x\<rparr>)" for x
        using tm sta Inl by (simp add: step1_def)
      from run_step1_fails [OF this] show ?thesis by simp
    next
      case (Inr u)
      have "set_message_info (s\<lparr>address := x\<rparr>) = (Inr u, s1\<lparr>address := x\<rparr>)" for x
        using sta Inr by simp
      note r = run_message_result [OF tm this]
      show ?thesis
        unfolding r getters_address ga gb
        by (intro bind_e_fails) simp
    qed
  qed
qed

lemma to_double_FiniteD: "to_double x = Finite r \<Longrightarrow> r = round_double x"
  by (simp add: to_double_def Let_def split: if_splits)

lemma half_length_Inr:
  assumes "length p = 2 * L" "half_length p = Inr pl" "pl < 2 ^ 53"
  shows "pl = int L"
proof (cases "L < 2 ^ 53")
  case True
  from half_length_even [OF assms(1) True] assms(2) show ?thesis by simp
next
  case False
  then have L: "(2 :: nat) ^ 53 \<le> L" by simp
  have q: "(of_nat (length p) :: rat) / 2 = of_nat L"
    using assms(1) by simp
  from assms(2) obtain r where td: "to_double (of_nat L) = Finite r" and pl: "pl = trunc_rat r"
    by (auto simp: half_length_def py_truediv_def q py_int_def bind_e_def
             split: pyfloat.splits)
  have r: "r = round_double (of_nat L)" using td by (rule to_double_FiniteD)
  have "(of_nat (2 ^ 53) :: rat) \<le> of_nat L" using L by (simp only: of_nat_le_iff)
  then have "of_int (2 ^ 52) * pow2 1 \<le> (of_nat L :: rat)" by (simp add: pow2_def)
  then have "of_int (2 ^ 52) * pow2 1 \<le> round_double (of_nat L)"
    by (intro round_double_lower) simp_all
  then have "(2 :: rat) ^ 53 \<le> r" by (simp add: r pow2_def)
  then have "(of_int (2 ^ 53) :: rat) \<le> r" by simp
  then have "2 ^ 53 \<le> \<lfloor>r\<rfloor>" by (simp only: le_floor_iff)
  moreover have "0 \<le> r" using \<open>(2 :: rat) ^ 53 \<le> r\<close> by (simp add: order_trans [of 0 "2 ^ 53"])
  ultimately have "2 ^ 53 \<le> pl" by (simp add: pl trunc_rat_def)
  with assms(3) show ?thesis by simp
qed

lemma run_message_InrD:
  assumes tm: "truthy (message s)" and st: "set_message_info s = (Inr u, s1)"
    and run: "fst (run now1 now2 s) = Inr out"
  shows "\<exists>ty ver ts pl pk fee dl al ad am mf mt plb p.
           get_transaction_type s = Inr ty \<and> get_version s = Inr ver
         \<and> get_timestamp now1 s = Inr ts \<and> get_publickey_length s = Inr pl
         \<and> get_publickey s = Inr pk \<and> calc_fee s1 = Inr fee
         \<and> get_deadline now2 s = Inr dl \<and> get_address_length s = Inr al
         \<and> get_address s = Inr ad \<and> get_amount s = Inr am
         \<and> attr message_field s1 = Inr mf
         \<and> (case message_type s1 of Bytes b \<Rightarrow> Inr b | Str t \<Rightarrow> Inl TypeError) = Inr mt
         \<and> attr payload_length s1 = Inr plb \<and> attr payload s1 = Inr p
         \<and> out = common_data s @ ty @ ver @ ts @ pl @ pk @ fee @ dl
                 @ transfer_data s @ al @ ad @ am @ mf @ mt @ plb @ p"
  using run unfolding run_message_result [OF tm st] bind_e_Inr_iff
  by blast


lemma run_message_Inr:
  assumes tm: "truthy (message s)" and run: "fst (run now1 now2 s) = Inr out"
  shows "\<exists>m mb ab tag ver pk fee am.
           message s = Some m \<and> encode_utf8 m = Inr mb
         \<and> encode_utf8 (address s) = Inr ab
         \<and> (message_type s = Str ''plane'' \<and> tag = 1
             \<or> message_type s = Str ''encryption'' \<and> tag = 2)
         \<and> 8 + int (length mb) < 2 ^ 32
         \<and> length ver = 4 \<and> length pk = 32 \<and> length fee = 8 \<and> length am = 8
         \<and> out = (common_data s @ le_bytes 4 (the (map_of TRANSACTION_TYPE (transaction_type s)))
                  @ ver @ le_bytes 4 now1 @ le_bytes 4 32 @ pk @ fee
                  @ le_bytes 4 (now2 + deadline_span s)
                  @ transfer_data s @ le_bytes 4 40
                  @ map of_nat (hex ab) @ am)
                 @ le_bytes 4 (8 + int (length mb)) @ le_bytes 4 tag
                 @ le_bytes 4 (int (length mb))
                 @ map of_nat (hex mb)"
proof -
  obtain r s1 where st: "set_message_info s = (r, s1)" by (cases "set_message_info s")
  show ?thesis
  proof (cases r)
    case (Inl e)
    with st tm have "step1 s = (Inl e, s1)" by (simp add: step1_def)
    from run_step1_fails [OF this, of now1 now2] run show ?thesis by simp
  next
    case (Inr u)
    with st have st': "set_message_info s = (Inr u, s1)" by simp
    from set_message_info_Inr [OF st'] obtain tag m p pl where
      tag: "message_type s = Str ''plane'' \<and> tag = 1
             \<or> message_type s = Str ''encryption'' \<and> tag = 2"
      and m: "message s = Some m"
      and ehe: "encode_hex_encode m = Inr p"
      and hl: "half_length p = Inr pl"
      and pl: "0 \<le> pl" "8 + pl < 2 ^ 32"
      and s1: "s1 = s\<lparr>message_type := Bytes (le_bytes 4 tag),
                   payload := Some p,
                   message_field := Some (le_bytes 4 (8 + pl)),
                   payload_length := Some (le_bytes 4 pl)\<rparr>"
      by blast
    from encode_hex_encode_InrD [OF ehe] obtain mb where
      mb: "encode_utf8 m = Inr mb" and p: "p = map of_nat (hex mb)"
      and lp: "length p = 2 * length mb" by blast
    have "pl < 2 ^ 53" using pl(2) by simp
    from half_length_Inr [OF lp hl this]
    have plL: "pl = int (length mb)" .
    from run_message_InrD [OF tm st' run] obtain ty ver ts pl' pk fee dl al ad am mf mt plb p' where
      g: "get_transaction_type s = Inr ty" "get_version s = Inr ver"
         "get_timestamp now1 s = Inr ts" "get_publickey_length s = Inr pl'"
         "get_publickey s = Inr pk" "calc_fee s1 = Inr fee"
         "get_deadline now2 s = Inr dl" "get_address_length s = Inr al"
         "get_address s = Inr ad" "get_amount s = Inr am"
      and a: "attr message_field s1 = Inr mf"
         "(case message_type s1 of Bytes b \<Rightarrow> Inr b | Str t \<Rightarrow> Inl TypeError) = Inr mt"
         "attr payload_length s1 = Inr plb" "attr payload s1 = Inr p'"
      and out: "out = common_data s @ ty @ ver @ ts @ pl' @ pk @ fee @ dl
                 @ transfer_data s @ al @ ad @ am @ mf @ mt @ plb @ p'"
      by blast
    from get_address_InrD [OF g(9)] obtain ab where
      ab: "encode_utf8 (address s) = Inr ab" and ad: "ad = map of_nat (hex ab)" by blast
    have ts: "ts = le_bytes 4 now1" using g(3) by (rule get_timestamp_Inr)
    have dl: "dl = le_bytes 4 (now2 + deadline_span s)" using g(7) by (rule get_deadline_Inr)
    have ty: "ty = le_bytes 4 (the (map_of TRANSACTION_TYPE (transaction_type s)))"
      using g(1)
      by (auto simp: get_transaction_type_def convert_number_to_byte_def to_bytes_little_def
               split: option.splits if_splits)
    have pl': "pl' = le_bytes 4 32" using g(4) by (simp add: get_publickey_length_val)
    have al: "al = le_bytes 4 40" using g(8) by (simp add: get_address_length_val)
    have mf: "mf = le_bytes 4 (8 + int (length mb))" using a(1) by (simp add: s1 attr_def plL)
    have mt: "mt = le_bytes 4 tag" using a(2) by (simp add: s1)
    have plb: "plb = le_bytes 4 (int (length mb))" using a(3) by (simp add: s1 attr_def plL)
    have p': "p' = map of_nat (hex mb)" using a(4) by (simp add: s1 attr_def p)
    have lens: "length ver = 4" "length pk = 32" "length fee = 8" "length am = 8"
      using g by (simp_all add: get_version_length get_publickey_length_32 calc_fee_length
          get_amount_length)
    have out': "out = (common_data s @ le_bytes 4 (the (map_of TRANSACTION_TYPE (transaction_type s)))
                  @ ver @ le_bytes 4 now1 @ le_bytes 4 32 @ pk @ fee
                  @ le_bytes 4 (now2 + deadline_span s)
                  @ transfer_data s @ le_bytes 4 40
                  @ map of_nat (hex ab) @ am)
                 @ le_bytes 4 (8 + int (length mb)) @ le_bytes 4 tag
                 @ le_bytes 4 (int (length mb))
                 @ map of_nat (hex mb)"
      unfolding out ty ts pl' dl al ad mf mt plb p' by (simp only: append_assoc)
    have b: "8 + int (length mb) < 2 ^ 32" using pl(2) plL by simp
    show ?thesis
      using m mb ab tag b lens out' by blast
  qed
qed

section \<open>The example request\<close>

lemma le_bytes_numeral:
  "le_bytes (numeral n) v = word_of_int (v mod 256) # le_bytes (pred_numeral n) (v div 256)"
  by (simp add: numeral_eq_Suc)

lemma le_bytes_Suc_0: "le_bytes (Suc 0) v = [word_of_int (v mod 256)]"
  by simp

lemma example_address_utf8:
  "encode_utf8 example_address =
     Inr [84, 65, 76, 73, 67, 69, 76, 67, 68, 51, 88, 80, 72, 52, 70, 70, 73, 53, 83, 84, 71, 71, 78, 83, 78, 83, 87, 80, 79, 84, 71, 53, 69, 52, 68, 83, 50, 84, 79, 83]"
  by (simp add: encode_utf8_def str_def utf8_char_def is_surrogate_def)

lemma example_address_bytes:
  "encode_hex_encode example_address =
     Inr [53, 52, 52, 49, 52, 99, 52, 57, 52, 51, 52, 53, 52, 99, 52, 51, 52, 52, 51, 51, 53, 56, 53, 48, 52, 56, 51, 52, 52, 54, 52, 54, 52, 57, 51, 53, 53, 51, 53, 52, 52, 55, 52, 55, 52, 101, 53, 51, 52, 101, 53, 51, 53, 55, 53, 48, 52, 102, 53, 52, 52, 55, 51, 53, 52, 53, 51, 52, 52, 52, 53, 51, 51, 50, 53, 52, 52, 102, 53, 51]"
  by (simp add: encode_hex_encode_def encode_utf8_def str_def utf8_char_def is_surrogate_def
      hex_def hex_byte_def hex_digit_def)

lemma ABC_bytes:
  "encode_hex_encode (str ''ABC'') = Inr [52, 49, 52, 50, 52, 51]"
  by (simp add: encode_hex_encode_def encode_utf8_def str_def utf8_char_def is_surrogate_def
      hex_def hex_byte_def hex_digit_def)

lemma NEM_utf8: "encode_utf8 (str ''NEM'') = Inr [78, 69, 77]"
  by (simp add: encode_utf8_def str_def utf8_char_def is_surrogate_def)

lemma NEM_hex: "map of_nat (hex [78, 69, 77]) = ([52, 101, 52, 53, 52, 100] :: bytes)"
  by (simp add: hex_def hex_byte_def hex_digit_def str_def)

lemma NEM_payload:
  "encode_hex_encode (str ''NEM'') = Inr [52, 101, 52, 53, 52, 100]"
  by (simp add: encode_hex_encode_def NEM_utf8 encode_utf8_hex NEM_hex)

lemma run_example:
  "fst (run 100000000 100000000
         (init example_key (PyInt 12) example_address None ''plane'' ''transfer'' ''test'')) =
     Inr [1, 1, 0, 0, 2, 0, 0, 152, 0, 225, 245, 5, 32, 0, 0, 0, 239, 205, 171, 137, 103, 69, 35, 1, 239, 205, 171, 137, 103, 69, 35, 1, 239, 205, 171, 137, 103, 69, 35, 1, 239, 205, 171, 137, 103, 69, 35, 1, 80, 195, 0, 0, 0, 0, 0, 0, 16, 239, 245, 5, 40, 0, 0, 0, 53, 52, 52, 49, 52, 99, 52, 57, 52, 51, 52, 53, 52, 99, 52, 51, 52, 52, 51, 51, 53, 56, 53, 48, 52, 56, 51, 52, 52, 54, 52, 54, 52, 57, 51, 53, 53, 51, 53, 52, 52, 55, 52, 55, 52, 101, 53, 51, 52, 101, 53, 51, 53, 55, 53, 48, 52, 102, 53, 52, 52, 55, 51, 53, 52, 53, 51, 52, 52, 52, 53, 51, 51, 50, 53, 52, 52, 102, 53, 51, 0, 27, 183, 0, 0, 0, 0, 0, 0, 0, 0, 0]"
  by (simp add: run_no_message_result init_def truthy_def get_transaction_type_def
      map_of_TRANSACTION_TYPE get_version_def get_timestamp_def get_publickey_length_def
      get_publickey_def py_int16_example_key calc_fee_12 get_deadline_def
      get_address_length_def get_address_def example_address_bytes get_amount_12
      convert_number_to_byte_def to_bytes_little_def le_bytes_numeral)

lemma example_getters:
  assumes "public_key s = example_key" "amount s = PyInt 12" "address s = example_address"
    "\<not> truthy (message s)" "transaction_type s = ''transfer''" "network_type s = ''test''"
    "nem_to_micronem s = PyFloat (float_lit 1000000)" "deadline_span s = 3600"
  shows "get_transaction_type s = Inr [1, 1, 0, 0]"
    "get_version s = Inr [2, 0, 0, 152]"
    "get_timestamp 100000000 s = Inr [0, 225, 245, 5]"
    "get_publickey_length s = Inr [32, 0, 0, 0]"
    "get_publickey s = Inr [239, 205, 171, 137, 103, 69, 35, 1, 239, 205, 171, 137, 103, 69, 35, 1, 239, 205, 171, 137, 103, 69, 35, 1, 239, 205, 171, 137, 103, 69, 35, 1]"
    "calc_fee s = Inr [80, 195, 0, 0, 0, 0, 0, 0]"
    "get_deadline 100000000 s = Inr [16, 239, 245, 5]"
    "get_address_length s = Inr [40, 0, 0, 0]"
    "get_address s = encode_hex_encode example_address"
    "get_amount s = Inr [0, 27, 183, 0, 0, 0, 0, 0]"
  using assms
  by (simp_all add: get_transaction_type_def
      map_of_TRANSACTION_TYPE get_version_def get_timestamp_def get_publickey_length_def
      get_publickey_def py_int16_example_key calc_fee_12 get_deadline_def
      get_address_length_def get_address_def get_amount_12
      convert_number_to_byte_def to_bytes_little_def le_bytes_numeral)

lemma run_example_state:
  "run 100000000 100000000
         (init example_key (PyInt 12) example_address None ''plane'' ''transfer'' ''test'') =
     (Inr [1, 1, 0, 0, 2, 0, 0, 152, 0, 225, 245, 5, 32, 0, 0, 0, 239, 205, 171, 137, 103, 69, 35, 1, 239, 205, 171, 137, 103, 69, 35, 1, 239, 205, 171, 137, 103, 69, 35, 1, 239, 205, 171, 137, 103, 69, 35, 1, 80, 195, 0, 0, 0, 0, 0, 0, 16, 239, 245, 5, 40, 0, 0, 0, 53, 52, 52, 49, 52, 99, 52, 57, 52, 51, 52, 53, 52, 99, 52, 51, 52, 52, 51, 51, 53, 56, 53, 48, 52, 56, 51, 52, 52, 54, 52, 54, 52, 57, 51, 53, 53, 51, 53, 52, 52, 55, 52, 55, 52, 101, 53, 51, 52, 101, 53, 51, 53, 55, 53, 48, 52, 102, 53, 52, 52, 55, 51, 53, 52, 53, 51, 52, 52, 52, 53, 51, 51, 50, 53, 52, 52, 102, 53, 51, 0, 27, 183, 0, 0, 0, 0, 0, 0, 0, 0, 0],
      (init example_key (PyInt 12) example_address None ''plane'' ''transfer'' ''test'')
        \<lparr>message_field := Some [0, 0, 0, 0],
         common_data := [1, 1, 0, 0, 2, 0, 0, 152, 0, 225, 245, 5, 32, 0, 0, 0, 239, 205, 171, 137, 103, 69, 35, 1, 239, 205, 171, 137, 103, 69, 35, 1, 239, 205, 171, 137, 103, 69, 35, 1, 239, 205, 171, 137, 103, 69, 35, 1, 80, 195, 0, 0, 0, 0, 0, 0, 16, 239, 245, 5],
         transfer_data := [40, 0, 0, 0, 53, 52, 52, 49, 52, 99, 52, 57, 52, 51, 52, 53, 52, 99, 52, 51, 52, 52, 51, 51, 53, 56, 53, 48, 52, 56, 51, 52, 52, 54, 52, 54, 52, 57, 51, 53, 53, 51, 53, 52, 52, 55, 52, 55, 52, 101, 53, 51, 52, 101, 53, 51, 53, 55, 53, 48, 52, 102, 53, 52, 52, 55, 51, 53, 52, 53, 51, 52, 52, 52, 53, 51, 51, 50, 53, 52, 52, 102, 53, 51, 0, 27, 183, 0, 0, 0, 0, 0, 0, 0, 0, 0]\<rparr>)"
proof -
  let ?s = "init example_key (PyInt 12) example_address None ''plane'' ''transfer'' ''test''"
  have f: "public_key ?s = example_key" "amount ?s = PyInt 12" "address ?s = example_address"
    "\<not> truthy (message ?s)" "transaction_type ?s = ''transfer''" "network_type ?s = ''test''"
    "nem_to_micronem ?s = PyFloat (float_lit 1000000)" "deadline_span ?s = 3600"
    "common_data ?s = []" "transfer_data ?s = []"
    by (simp_all add: init_def truthy_def)
  note g = example_getters [OF f(1-8)]
  show ?thesis
    by (simp add: run_def block_step1 step1_no_message [OF f(4)] g f block_step3_no_message
        attr_def example_address_bytes le_bytes_numeral del: block.simps(2))
qed

lemma run_short_address:
  "fst (run 100000000 100000000
         (init example_key (PyInt 12) (str ''ABC'') None ''plane'' ''transfer'' ''test'')) =
     Inr [1, 1, 0, 0, 2, 0, 0, 152, 0, 225, 245, 5, 32, 0, 0, 0, 239, 205, 171, 137, 103, 69, 35, 1, 239, 205, 171, 137, 103, 69, 35, 1, 239, 205, 171, 137, 103, 69, 35, 1, 239, 205, 171, 137, 103, 69, 35, 1, 80, 195, 0, 0, 0, 0, 0, 0, 16, 239, 245, 5, 40, 0, 0, 0, 52, 49, 52, 50, 52, 51, 0, 27, 183, 0, 0, 0, 0, 0, 0, 0, 0, 0]"
  by (simp add: run_no_message_result init_def truthy_def get_transaction_type_def
      map_of_TRANSACTION_TYPE get_version_def get_timestamp_def get_publickey_length_def
      get_publickey_def py_int16_example_key calc_fee_12 get_deadline_def
      get_address_length_def get_address_def ABC_bytes get_amount_12
      convert_number_to_byte_def to_bytes_little_def le_bytes_numeral)

lemma to_double_3_32: "to_double (3 / 32) = Finite (3 / 32)"
  using to_double_exact [of 3 "- 5"] by (simp add: pow2_def)

lemma to_double_d01:
  "to_double (3602879701896397 / 36028797018963968) = Finite (3602879701896397 / 36028797018963968)"
  using to_double_exact [of 3602879701896397 "- 55"] by (simp add: pow2_def)

lemma to_double_fee_100000:
  "to_double (3602879701896397 / 36028797018963968 * 1000000) = Finite 100000"
  using to_double_cert [of 16 "3602879701896397 / 36028797018963968 * 1000000" 6871947673600000]
  by (simp add: pow2_def)

lemma to_double_1: "to_double 1 = Finite 1"
  using to_double_of_int [of 1] by simp

lemma message_fee_3:
  assumes "truthy (message s)" "payload s = Some [52, 101, 52, 53, 52, 100]"
  shows "message_fee s = Inr (PyFloat (Finite (3602879701896397 / 72057594037927936)))"
proof -
  have hl: "half_length [52, 101, 52, 53, 52, 100] = Inr 3"
    using half_length_even [of "[52, 101, 52, 53, 52, 100]" 3] by simp
  show ?thesis
    using assms
    by (simp add: message_fee_def Let_def hl py_truediv_def to_double_3_32 py_int_def
        trunc_rat_def floor_rat_numeral py_mul_def as_float_def float_of_int_def
        float_lit_005 [simplified] to_double_1 fl_mul_def to_double_d005)
qed

lemma calc_fee_12_NEM:
  assumes "amount s = PyInt 12" "truthy (message s)"
    "payload s = Some [52, 101, 52, 53, 52, 100]"
    "nem_to_micronem s = PyFloat (float_lit 1000000)"
  shows "calc_fee s = Inr (le_bytes 8 100000)"
  using assms
  by (simp add: calc_fee_def transfer_fee_12 message_fee_3 Let_def float_lit_1000000
      py_add_def as_float_def fl_add_def to_double_d01
      py_mul_def fl_mul_def to_double_fee_100000 [simplified] py_int_def trunc_rat_def
      convert_number_to_byte_def to_bytes_little_def)

lemma run_example_NEM_tag:
  assumes "mt = ''plane'' \<and> tag = 1 \<or> mt = ''encryption'' \<and> tag = 2"
  shows "fst (run 100000000 100000000
         (init example_key (PyInt 12) example_address (Some (str ''NEM'')) mt ''transfer'' ''test'')) =
     Inr ([1, 1, 0, 0, 2, 0, 0, 152, 0, 225, 245, 5, 32, 0, 0, 0, 239, 205, 171, 137, 103, 69, 35, 1, 239, 205, 171, 137, 103, 69, 35, 1, 239, 205, 171, 137, 103, 69, 35, 1, 239, 205, 171, 137, 103, 69, 35, 1, 160, 134, 1, 0, 0, 0, 0, 0, 16, 239, 245, 5, 40, 0, 0, 0, 53, 52, 52, 49, 52, 99, 52, 57, 52, 51, 52, 53, 52, 99, 52, 51, 52, 52, 51, 51, 53, 56, 53, 48, 52, 56, 51, 52, 52, 54, 52, 54, 52, 57, 51, 53, 53, 51, 53, 52, 52, 55, 52, 55, 52, 101, 53, 51, 52, 101, 53, 51, 53, 55, 53, 48, 52, 102, 53, 52, 52, 55, 51, 53, 52, 53, 51, 52, 52, 52, 53, 51, 51, 50, 53, 52, 52, 102, 53, 51, 0, 27, 183, 0, 0, 0, 0, 0, 11, 0, 0, 0] @ le_bytes 4 tag @ [3, 0, 0, 0, 52, 101, 52, 53, 52, 100])"
proof -
  let ?s = "init example_key (PyInt 12) example_address (Some (str ''NEM'')) mt ''transfer'' ''test''"
  have tm: "truthy (message ?s)" by (simp add: init_def truthy_def)
  have mt: "message_type ?s = Str ''plane'' \<and> tag = 1
             \<or> message_type ?s = Str ''encryption'' \<and> tag = 2"
    using assms by (simp add: init_def)
  have m: "message ?s = Some (str ''NEM'')" by (simp add: init_def)
  let ?s1 = "?s\<lparr>message_type := Bytes (le_bytes 4 tag),
                   payload := Some [52, 101, 52, 53, 52, 100],
                   message_field := Some (le_bytes 4 11),
                   payload_length := Some (le_bytes 4 3)\<rparr>"
  have st: "set_message_info ?s = (Inr (), ?s1)"
    using set_message_info_value [OF mt m NEM_utf8] by (simp add: NEM_hex)
  have fee: "calc_fee ?s1 = Inr (le_bytes 8 100000)"
    by (rule calc_fee_12_NEM) (simp_all add: init_def truthy_def)
  show ?thesis
    unfolding run_message_result [OF tm st] fee
    by (simp add: init_def attr_def get_transaction_type_def
      map_of_TRANSACTION_TYPE get_version_def get_timestamp_def get_publickey_length_def
      get_publickey_def py_int16_example_key get_deadline_def
      get_address_length_def get_address_def example_address_bytes get_amount_12
      convert_number_to_byte_def to_bytes_little_def le_bytes_numeral)
qed

lemma run_example_NEM_plane:
  "fst (run 100000000 100000000
         (init example_key (PyInt 12) example_address (Some (str ''NEM'')) ''plane'' ''transfer'' ''test'')) =
     Inr [1, 1, 0, 0, 2, 0, 0, 152, 0, 225, 245, 5, 32, 0, 0, 0, 239, 205, 171, 137, 103, 69, 35, 1, 239, 205, 171, 137, 103, 69, 35, 1, 239, 205, 171, 137, 103, 69, 35, 1, 239, 205, 171, 137, 103, 69, 35, 1, 160, 134, 1, 0, 0, 0, 0, 0, 16, 239, 245, 5, 40, 0, 0, 0, 53, 52, 52, 49, 52, 99, 52, 57, 52, 51, 52, 53, 52, 99, 52, 51, 52, 52, 51, 51, 53, 56, 53, 48, 52, 56, 51, 52, 52, 54, 52, 54, 52, 57, 51, 53, 53, 51, 53, 52, 52, 55, 52, 55, 52, 101, 53, 51, 52, 101, 53, 51, 53, 55, 53, 48, 52, 102, 53, 52, 52, 55, 51, 53, 52, 53, 51, 52, 52, 52, 53, 51, 51, 50, 53, 52, 52, 102, 53, 51, 0, 27, 183, 0, 0, 0, 0, 0, 11, 0, 0, 0, 1, 0, 0, 0, 3, 0, 0, 0, 52, 101, 52, 53, 52, 100]"
  using run_example_NEM_tag [of "''plane''" 1] by (simp add: le_bytes_numeral)

lemma run_example_NEM_encryption:
  "fst (run 100000000 100000000
         (init example_key (PyInt 12) example_address (Some (str ''NEM'')) ''encryption'' ''transfer'' ''test'')) =
     Inr [1, 1, 0, 0, 2, 0, 0, 152, 0, 225, 245, 5, 32, 0, 0, 0, 239, 205, 171, 137, 103, 69, 35, 1, 239, 205, 171, 137, 103, 69, 35, 1, 239, 205, 171, 137, 103, 69, 35, 1, 239, 205, 171, 137, 103, 69, 35, 1, 160, 134, 1, 0, 0, 0, 0, 0, 16, 239, 245, 5, 40, 0, 0, 0, 53, 52, 52, 49, 52, 99, 52, 57, 52, 51, 52, 53, 52, 99, 52, 51, 52, 52, 51, 51, 53, 56, 53, 48, 52, 56, 51, 52, 52, 54, 52, 54, 52, 57, 51, 53, 53, 51, 53, 52, 52, 55, 52, 55, 52, 101, 53, 51, 52, 101, 53, 51, 53, 55, 53, 48, 52, 102, 53, 52, 52, 55, 51, 53, 52, 53, 51, 52, 52, 52, 53, 51, 51, 50, 53, 52, 52, 102, 53, 51, 0, 27, 183, 0, 0, 0, 0, 0, 11, 0, 0, 0, 2, 0, 0, 0, 3, 0, 0, 0, 52, 101, 52, 53, 52, 100]"
  using run_example_NEM_tag [of "''encryption''" 2] by (simp add: le_bytes_numeral)

section \<open>The claims\<close>

text \<open>
  Claim C3.  The 4-byte version word returned by \<open>get_version\<close> (the spec's
  \<open>resolve_version\<close>) is the little-endian encoding of (network byte * 2^24) + structure
  version: the network byte is 0x68 for network \<open>main\<close> and 0x98 for network \<open>test\<close>, the
  structure version is 2 for the kinds \<open>transfer\<close> and \<open>multisig_aggregate_modification\<close>
  and 1 for every other kind.  The witness gives the two instances of the claim:
  (\<open>transfer\<close>, \<open>test\<close>) decodes to 0x98000002 and (\<open>importance_transfer\<close>, \<open>main\<close>) to
  0x68000001.
\<close>

theorem C3_version_word:
  "\<exists>bs. get_version self = Inr bs \<and> length bs = 4
      \<and> bs = le_bytes 4 (from_bytes_little bs)
      \<and> (network_type self = ''main'' \<longrightarrow>
           from_bytes_little bs = 0x68 * 2 ^ 24
             + (if transaction_type self = ''transfer''
                   \<or> transaction_type self = ''multisig_aggregate_modification''
                then 2 else 1))
      \<and> (network_type self = ''test'' \<longrightarrow>
           from_bytes_little bs = 0x98 * 2 ^ 24
             + (if transaction_type self = ''transfer''
                   \<or> transaction_type self = ''multisig_aggregate_modification''
                then 2 else 1))"
  by (simp add: get_version_def Let_def convert_number_to_byte_def to_bytes_little_def
        length_le_bytes from_bytes_le_bytes)

theorem C3_version_word_witness:
  "(\<exists>bs. get_version (init [] (PyInt 12) [] None ''plane'' ''transfer'' ''test'') = Inr bs
          \<and> from_bytes_little bs = 0x98000002)
   \<and> (\<exists>bs. get_version (init [] (PyInt 12) [] None ''plane'' ''importance_transfer'' ''main'')
            = Inr bs
          \<and> from_bytes_little bs = 0x68000001)"
proof -
  have a: "network_type (init [] (PyInt 12) [] None ''plane'' ''transfer'' ''test'') = ''test''"
    and b: "transaction_type (init [] (PyInt 12) [] None ''plane'' ''transfer'' ''test'') = ''transfer''"
    and c: "network_type (init [] (PyInt 12) [] None ''plane'' ''importance_transfer'' ''main'') = ''main''"
    and d: "transaction_type (init [] (PyInt 12) [] None ''plane'' ''importance_transfer'' ''main'')
              = ''importance_transfer''"
    by (simp_all add: init_def)
  from C3_version_word [of "init [] (PyInt 12) [] None ''plane'' ''transfer'' ''test''"]
  have 1: "\<exists>bs. get_version (init [] (PyInt 12) [] None ''plane'' ''transfer'' ''test'') = Inr bs
          \<and> from_bytes_little bs = 0x98000002"
    unfolding a b by auto
  from C3_version_word [of "init [] (PyInt 12) [] None ''plane'' ''importance_transfer'' ''main''"]
  have 2: "\<exists>bs. get_version (init [] (PyInt 12) [] None ''plane'' ''importance_transfer'' ''main'')
            = Inr bs \<and> from_bytes_little bs = 0x68000001"
    unfolding c d by auto
  from 1 2 show ?thesis by simp
qed

text \<open>
  Claim C9.  For every integer value and byte width, the scalar encoder
  (\<open>convert_number_to_byte\<close>, the spec's \<open>encode_uint\<close>) returns exactly \<open>width\<close> bytes
  that are the little-endian encoding of the value when \<open>0 \<le> value < 2^(8*width)\<close>
  (byte \<open>i\<close> is \<open>(value div 256^i) mod 256\<close>, and the bytes decode back to the value),
  and it fails with \<open>OverflowError\<close> (the spec's EncodingError), never truncating,
  when the value is negative or at least \<open>2^(8*width)\<close>.
\<close>

theorem C9_encode_uint:
  "(0 \<le> v \<and> v < 2 ^ (8 * n) \<longrightarrow>
      (\<exists>bs. convert_number_to_byte v n = Inr bs \<and> length bs = n
            \<and> (\<forall>i<n. bs ! i = word_of_int ((v div 256 ^ i) mod 256))
            \<and> from_bytes_little bs = v))
   \<and> (v < 0 \<or> 2 ^ (8 * n) \<le> v \<longrightarrow> convert_number_to_byte v n = Inl OverflowError)"
proof (intro conjI impI)
  assume range: "0 \<le> v \<and> v < 2 ^ (8 * n)"
  then have res: "convert_number_to_byte v n = Inr (le_bytes n v)"
    by (simp add: convert_number_to_byte_Inr)
  have "from_bytes_little (le_bytes n v) = v"
    using range by (simp add: from_bytes_le_bytes)
  with res show "\<exists>bs. convert_number_to_byte v n = Inr bs \<and> length bs = n
            \<and> (\<forall>i<n. bs ! i = word_of_int ((v div 256 ^ i) mod 256))
            \<and> from_bytes_little bs = v"
    by (simp add: length_le_bytes nth_le_bytes)
next
  assume "v < 0 \<or> 2 ^ (8 * n) \<le> v"
  then show "convert_number_to_byte v n = Inl OverflowError"
    by (auto simp: convert_number_to_byte_def to_bytes_little_def)
qed

theorem C9_encode_uint_witness:
  "convert_number_to_byte 258 4 = Inr [2, 1, 0, 0]
   \<and> from_bytes_little [2, 1, 0, 0] = 258
   \<and> convert_number_to_byte 65536 2 = Inl OverflowError
   \<and> convert_number_to_byte (- 1) 4 = Inl OverflowError"
proof -
  have ok: "\<exists>bs. convert_number_to_byte 258 4 = Inr bs \<and> length bs = 4
            \<and> (\<forall>i<4. bs ! i = word_of_int ((258 div 256 ^ i) mod 256))
            \<and> from_bytes_little bs = 258"
    using C9_encode_uint [of 258 4] by simp
  have big: "convert_number_to_byte 65536 2 = Inl OverflowError"
    using C9_encode_uint [of 65536 2] by simp
  have neg: "convert_number_to_byte (- 1) 4 = Inl OverflowError"
    using C9_encode_uint [of "- 1" 4] by simp
  have val: "convert_number_to_byte 258 4 = Inr [2, 1, 0, 0]"
    by (simp add: convert_number_to_byte_def to_bytes_little_def eval_nat_numeral)
  have dec: "from_bytes_little [2, 1, 0, 0] = 258"
    by simp
  from ok val dec big neg show ?thesis by simp
qed




text \<open>
  Claim C10.  The claim says that encoding keeps no state between calls, so that a second
  \<open>run\<close> of the same request object returns the same bytes as the first.  \<open>run\<close>
  appends to the attributes \<open>common_data\<close> and \<open>transfer_data\<close>, which only \<open>__init__\<close>
  empties: with the clock held at 100000000, the first \<open>run\<close> of the example request
  returns its 156 bytes, and the second \<open>run\<close> of the same object returns 312 bytes, the
  header twice followed by the transfer block twice.
\<close>

theorem C10_second_run_accumulates:
  "fst (run 100000000 100000000
         (init example_key (PyInt 12) example_address None ''plane'' ''transfer'' ''test'')) =
     Inr [1, 1, 0, 0, 2, 0, 0, 152, 0, 225, 245, 5, 32, 0, 0, 0, 239, 205, 171, 137, 103, 69, 35, 1, 239, 205, 171, 137, 103, 69, 35, 1, 239, 205, 171, 137, 103, 69, 35, 1, 239, 205, 171, 137, 103, 69, 35, 1, 80, 195, 0, 0, 0, 0, 0, 0, 16, 239, 245, 5, 40, 0, 0, 0, 53, 52, 52, 49, 52, 99, 52, 57, 52, 51, 52, 53, 52, 99, 52, 51, 52, 52, 51, 51, 53, 56, 53, 48, 52, 56, 51, 52, 52, 54, 52, 54, 52, 57, 51, 53, 53, 51, 53, 52, 52, 55, 52, 55, 52, 101, 53, 51, 52, 101, 53, 51, 53, 55, 53, 48, 52, 102, 53, 52, 52, 55, 51, 53, 52, 53, 51, 52, 52, 52, 53, 51, 51, 50, 53, 52, 52, 102, 53, 51, 0, 27, 183, 0, 0, 0, 0, 0, 0, 0, 0, 0]
   \<and> fst (run 100000000 100000000
         (snd (run 100000000 100000000
            (init example_key (PyInt 12) example_address None ''plane'' ''transfer'' ''test'')))) =
     Inr [1, 1, 0, 0, 2, 0, 0, 152, 0, 225, 245, 5, 32, 0, 0, 0, 239, 205, 171, 137, 103, 69, 35, 1, 239, 205, 171, 137, 103, 69, 35, 1, 239, 205, 171, 137, 103, 69, 35, 1, 239, 205, 171, 137, 103, 69, 35, 1, 80, 195, 0, 0, 0, 0, 0, 0, 16, 239, 245, 5, 1, 1, 0, 0, 2, 0, 0, 152, 0, 225, 245, 5, 32, 0, 0, 0, 239, 205, 171, 137, 103, 69, 35, 1, 239, 205, 171, 137, 103, 69, 35, 1, 239, 205, 171, 137, 103, 69, 35, 1, 239, 205, 171, 137, 103, 69, 35, 1, 80, 195, 0, 0, 0, 0, 0, 0, 16, 239, 245, 5, 40, 0, 0, 0, 53, 52, 52, 49, 52, 99, 52, 57, 52, 51, 52, 53, 52, 99, 52, 51, 52, 52, 51, 51, 53, 56, 53, 48, 52, 56, 51, 52, 52, 54, 52, 54, 52, 57, 51, 53, 53, 51, 53, 52, 52, 55, 52, 55, 52, 101, 53, 51, 52, 101, 53, 51, 53, 55, 53, 48, 52, 102, 53, 52, 52, 55, 51, 53, 52, 53, 51, 52, 52, 52, 53, 51, 51, 50, 53, 52, 52, 102, 53, 51, 0, 27, 183, 0, 0, 0, 0, 0, 0, 0, 0, 0, 40, 0, 0, 0, 53, 52, 52, 49, 52, 99, 52, 57, 52, 51, 52, 53, 52, 99, 52, 51, 52, 52, 51, 51, 53, 56, 53, 48, 52, 56, 51, 52, 52, 54, 52, 54, 52, 57, 51, 53, 53, 51, 53, 52, 52, 55, 52, 55, 52, 101, 53, 51, 52, 101, 53, 51, 53, 55, 53, 48, 52, 102, 53, 52, 52, 55, 51, 53, 52, 53, 51, 52, 52, 52, 53, 51, 51, 50, 53, 52, 52, 102, 53, 51, 0, 27, 183, 0, 0, 0, 0, 0, 0, 0, 0, 0]"
proof -
  let ?s = "init example_key (PyInt 12) example_address None ''plane'' ''transfer'' ''test''"
  let ?s' = "snd (run 100000000 100000000 ?s)"
  have f: "public_key ?s' = example_key" "amount ?s' = PyInt 12" "address ?s' = example_address"
    "\<not> truthy (message ?s')" "transaction_type ?s' = ''transfer''" "network_type ?s' = ''test''"
    "nem_to_micronem ?s' = PyFloat (float_lit 1000000)" "deadline_span ?s' = 3600"
    unfolding run_example_state by (simp_all add: init_def truthy_def)
  note g = example_getters [OF f]
  have c: "common_data ?s' = [1, 1, 0, 0, 2, 0, 0, 152, 0, 225, 245, 5, 32, 0, 0, 0, 239, 205, 171, 137, 103, 69, 35, 1, 239, 205, 171, 137, 103, 69, 35, 1, 239, 205, 171, 137, 103, 69, 35, 1, 239, 205, 171, 137, 103, 69, 35, 1, 80, 195, 0, 0, 0, 0, 0, 0, 16, 239, 245, 5]"
    and t: "transfer_data ?s' = [40, 0, 0, 0, 53, 52, 52, 49, 52, 99, 52, 57, 52, 51, 52, 53, 52, 99, 52, 51, 52, 52, 51, 51, 53, 56, 53, 48, 52, 56, 51, 52, 52, 54, 52, 54, 52, 57, 51, 53, 53, 51, 53, 52, 52, 55, 52, 55, 52, 101, 53, 51, 52, 101, 53, 51, 53, 55, 53, 48, 52, 102, 53, 52, 52, 55, 51, 53, 52, 53, 51, 52, 52, 52, 53, 51, 51, 50, 53, 52, 52, 102, 53, 51, 0, 27, 183, 0, 0, 0, 0, 0, 0, 0, 0, 0]"
    unfolding run_example_state by simp_all
  have 2: "fst (run 100000000 100000000 ?s') = Inr [1, 1, 0, 0, 2, 0, 0, 152, 0, 225, 245, 5, 32, 0, 0, 0, 239, 205, 171, 137, 103, 69, 35, 1, 239, 205, 171, 137, 103, 69, 35, 1, 239, 205, 171, 137, 103, 69, 35, 1, 239, 205, 171, 137, 103, 69, 35, 1, 80, 195, 0, 0, 0, 0, 0, 0, 16, 239, 245, 5, 1, 1, 0, 0, 2, 0, 0, 152, 0, 225, 245, 5, 32, 0, 0, 0, 239, 205, 171, 137, 103, 69, 35, 1, 239, 205, 171, 137, 103, 69, 35, 1, 239, 205, 171, 137, 103, 69, 35, 1, 239, 205, 171, 137, 103, 69, 35, 1, 80, 195, 0, 0, 0, 0, 0, 0, 16, 239, 245, 5, 40, 0, 0, 0, 53, 52, 52, 49, 52, 99, 52, 57, 52, 51, 52, 53, 52, 99, 52, 51, 52, 52, 51, 51, 53, 56, 53, 48, 52, 56, 51, 52, 52, 54, 52, 54, 52, 57, 51, 53, 53, 51, 53, 52, 52, 55, 52, 55, 52, 101, 53, 51, 52, 101, 53, 51, 53, 55, 53, 48, 52, 102, 53, 52, 52, 55, 51, 53, 52, 53, 51, 52, 52, 52, 53, 51, 51, 50, 53, 52, 52, 102, 53, 51, 0, 27, 183, 0, 0, 0, 0, 0, 0, 0, 0, 0, 40, 0, 0, 0, 53, 52, 52, 49, 52, 99, 52, 57, 52, 51, 52, 53, 52, 99, 52, 51, 52, 52, 51, 51, 53, 56, 53, 48, 52, 56, 51, 52, 52, 54, 52, 54, 52, 57, 51, 53, 53, 51, 53, 52, 52, 55, 52, 55, 52, 101, 53, 51, 52, 101, 53, 51, 53, 55, 53, 48, 52, 102, 53, 52, 52, 55, 51, 53, 52, 53, 51, 52, 52, 52, 53, 51, 51, 50, 53, 52, 52, 102, 53, 51, 0, 27, 183, 0, 0, 0, 0, 0, 0, 0, 0, 0]"
    unfolding run_no_message_result [OF f(4)] g c t
    by (simp add: example_address_bytes le_bytes_numeral)
  from run_example 2 show ?thesis by simp
qed

text \<open>
  Claim C7, as amended.  The first half of the claim holds as stated: \<open>get_transaction_type\<close>
  (the spec's \<open>resolve_type\<close>) maps each of the eight kinds of the table to the 4-byte
  little-endian encoding of its code.  For a kind that is not in the table,
  \<open>get_transaction_type\<close> raises \<open>KeyError\<close>, and \<open>run\<close> fails with \<open>common_data\<close> and
  \<open>transfer_data\<close> unchanged, so no byte is emitted.  But \<open>run\<close> looks the kind up only
  after its step 1: the failure of \<open>run\<close> is the \<open>KeyError\<close> when there is no message, or
  when the message type is \<open>plane\<close> or \<open>encryption\<close> and the message has a UTF-8 encoding
  shorter than 2^32 - 8 bytes; when a message comes with any other message type, \<open>run\<close>
  fails with the exception for the invalid message type instead, as the counterexample
  shows for the kind \<open>typo\<close>.
\<close>

theorem C7_resolve_type:
  "TRANSACTION_TYPE =
     [(''transfer'', 0x0101), (''importance_transfer'', 0x0801),
      (''multisig_aggregate_modification'', 0x1001), (''multisig_signature'', 0x1002),
      (''multisig'', 0x1004), (''provision_namespace'', 0x2001),
      (''mosaic_definition_creation'', 0x4001), (''mosaic_supply_change'', 0x4002)]
   \<and> (\<forall>v. (transaction_type s, v) \<in> set TRANSACTION_TYPE \<longrightarrow>
          get_transaction_type s = Inr (le_bytes 4 v) \<and> length (le_bytes 4 v) = 4
          \<and> from_bytes_little (le_bytes 4 v) = v)
   \<and> (transaction_type s \<notin> fst ` set TRANSACTION_TYPE \<longrightarrow>
        get_transaction_type s = Inl KeyError
        \<and> (\<exists>e s'. run now1 now2 s = (Inl e, s')
              \<and> common_data s' = common_data s \<and> transfer_data s' = transfer_data s
              \<and> (\<not> truthy (message s) \<longrightarrow> e = KeyError)
              \<and> (\<forall>m mb. message s = Some m
                     \<and> (message_type s = Str ''plane'' \<or> message_type s = Str ''encryption'')
                     \<and> encode_utf8 m = Inr mb
                     \<and> 8 + int (length mb) < 2 ^ 32 \<longrightarrow> e = KeyError)
              \<and> (truthy (message s) \<and> message_type s \<noteq> Str ''plane''
                   \<and> message_type s \<noteq> Str ''encryption'' \<longrightarrow>
                   e = Exception ''Invalid message type. Select plane or encryption!'')))"
proof (intro conjI allI impI)
  show "TRANSACTION_TYPE =
     [(''transfer'', 0x0101), (''importance_transfer'', 0x0801),
      (''multisig_aggregate_modification'', 0x1001), (''multisig_signature'', 0x1002),
      (''multisig'', 0x1004), (''provision_namespace'', 0x2001),
      (''mosaic_definition_creation'', 0x4001), (''mosaic_supply_change'', 0x4002)]"
    by (simp add: TRANSACTION_TYPE_def)
next
  fix v assume a: "(transaction_type s, v) \<in> set TRANSACTION_TYPE"
  show "get_transaction_type s = Inr (le_bytes 4 v)" by (rule get_transaction_type_table [OF a])
  show "length (le_bytes 4 v) = 4" by (simp add: length_le_bytes)
  show "from_bytes_little (le_bytes 4 v) = v"
    using get_transaction_type_table(2,3) [OF a] by (simp add: from_bytes_le_bytes)
next
  assume a: "transaction_type s \<notin> fst ` set TRANSACTION_TYPE"
  note n = get_transaction_type_absent [OF a]
  show "get_transaction_type s = Inl KeyError" using n by (simp add: get_transaction_type_def)
  from run_unknown_kind [OF n, of now1 now2] obtain e s' where
    r: "run now1 now2 s = (Inl e, s')" "common_data s' = common_data s"
       "transfer_data s' = transfer_data s" "fst (step1 s) = Inr () \<longrightarrow> e = KeyError"
    by blast
  have 1: "\<not> truthy (message s) \<longrightarrow> e = KeyError"
    using r(4) step1_succeeds [of s] by blast
  have 2: "\<forall>m mb. message s = Some m
                     \<and> (message_type s = Str ''plane'' \<or> message_type s = Str ''encryption'')
                     \<and> encode_utf8 m = Inr mb
                     \<and> 8 + int (length mb) < 2 ^ 32 \<longrightarrow> e = KeyError"
    using r(4) step1_succeeds [of s] by blast
  have 3: "truthy (message s) \<and> message_type s \<noteq> Str ''plane''
                   \<and> message_type s \<noteq> Str ''encryption'' \<longrightarrow>
                   e = Exception ''Invalid message type. Select plane or encryption!''"
  proof
    assume b: "truthy (message s) \<and> message_type s \<noteq> Str ''plane''
                   \<and> message_type s \<noteq> Str ''encryption''"
    then have "step1 s = (Inl (Exception ''Invalid message type. Select plane or encryption!''), s)"
      by (intro step1_bad_type) simp_all
    from run_step1_fails [OF this, of now1 now2] r(1) show
      "e = Exception ''Invalid message type. Select plane or encryption!''" by simp
  qed
  from r(1-3) 1 2 3 show "\<exists>e s'. run now1 now2 s = (Inl e, s')
              \<and> common_data s' = common_data s \<and> transfer_data s' = transfer_data s
              \<and> (\<not> truthy (message s) \<longrightarrow> e = KeyError)
              \<and> (\<forall>m mb. message s = Some m
                     \<and> (message_type s = Str ''plane'' \<or> message_type s = Str ''encryption'')
                     \<and> encode_utf8 m = Inr mb
                     \<and> 8 + int (length mb) < 2 ^ 32 \<longrightarrow> e = KeyError)
              \<and> (truthy (message s) \<and> message_type s \<noteq> Str ''plane''
                   \<and> message_type s \<noteq> Str ''encryption'' \<longrightarrow>
                   e = Exception ''Invalid message type. Select plane or encryption!'')"
    by blast
qed

theorem C7_counterexample:
  "map_of TRANSACTION_TYPE ''typo'' = None
   \<and> run 0 0 (init example_key (PyInt 12) example_address (Some (str ''hi'')) ''bogus'' ''typo'' ''test'')
     = (Inl (Exception ''Invalid message type. Select plane or encryption!''),
        init example_key (PyInt 12) example_address (Some (str ''hi'')) ''bogus'' ''typo'' ''test'')"
proof
  show "map_of TRANSACTION_TYPE ''typo'' = None" by (simp add: TRANSACTION_TYPE_def)
  show "run 0 0 (init example_key (PyInt 12) example_address (Some (str ''hi'')) ''bogus'' ''typo'' ''test'')
     = (Inl (Exception ''Invalid message type. Select plane or encryption!''),
        init example_key (PyInt 12) example_address (Some (str ''hi'')) ''bogus'' ''typo'' ''test'')"
    by (rule run_step1_fails, rule step1_bad_type) (simp_all add: init_def truthy_def)
qed

theorem C7_resolve_type_witness:
  "get_transaction_type (init example_key (PyInt 12) example_address None ''plane'' ''multisig'' ''test'')
     = Inr [4, 16, 0, 0]
   \<and> fst (run 0 0 (init example_key (PyInt 12) example_address None ''plane'' ''typo'' ''test''))
     = Inl KeyError
   \<and> fst (run 0 0 (init example_key (PyInt 12) example_address (Some (str ''hi'')) ''plane'' ''typo'' ''test''))
     = Inl KeyError
   \<and> fst (run 0 0 (init example_key (PyInt 12) example_address (Some (str ''hi'')) ''plain'' ''typo'' ''test''))
     = Inl (Exception ''Invalid message type. Select plane or encryption!'')"
proof (intro conjI)
  let ?a = "init example_key (PyInt 12) example_address None ''plane'' ''multisig'' ''test''"
  have "(transaction_type ?a, 0x1004) \<in> set TRANSACTION_TYPE"
    by (simp add: init_def TRANSACTION_TYPE_def)
  with C7_resolve_type [of ?a 0 0] have "get_transaction_type ?a = Inr (le_bytes 4 0x1004)"
    by blast
  then show "get_transaction_type ?a = Inr [4, 16, 0, 0]" by (simp add: le_bytes_numeral)
next
  let ?b = "init example_key (PyInt 12) example_address None ''plane'' ''typo'' ''test''"
  have "transaction_type ?b \<notin> fst ` set TRANSACTION_TYPE" "\<not> truthy (message ?b)"
    by (simp_all add: init_def TRANSACTION_TYPE_def truthy_def)
  with C7_resolve_type [of ?b 0 0] show "fst (run 0 0 ?b) = Inl KeyError" by auto
next
  let ?c = "init example_key (PyInt 12) example_address (Some (str ''hi'')) ''plane'' ''typo'' ''test''"
  have "transaction_type ?c \<notin> fst ` set TRANSACTION_TYPE" "message ?c = Some (str ''hi'')"
    "message_type ?c = Str ''plane''" "encode_utf8 (str ''hi'') = Inr [104, 105]"
    "8 + int (length [104, 105 :: byte]) < 2 ^ 32"
    by (simp_all add: init_def TRANSACTION_TYPE_def encode_utf8_def str_def utf8_char_def
        is_surrogate_def)
  with C7_resolve_type [of ?c 0 0] show "fst (run 0 0 ?c) = Inl KeyError" by auto
next
  let ?d = "init example_key (PyInt 12) example_address (Some (str ''hi'')) ''plain'' ''typo'' ''test''"
  have "transaction_type ?d \<notin> fst ` set TRANSACTION_TYPE" "truthy (message ?d)"
    "message_type ?d \<noteq> Str ''plane''" "message_type ?d \<noteq> Str ''encryption''"
    by (simp_all add: init_def TRANSACTION_TYPE_def truthy_def)
  with C7_resolve_type [of ?d 0 0] show "fst (run 0 0 ?d) = Inl (Exception ''Invalid message type. Select plane or encryption!'')" by auto
qed

text \<open>
  Claim C8, as amended.  The claim says that an address that is not 40 characters long makes
  the encoding fail.  Neither \<open>__init__\<close> nor \<open>get_address\<close> nor \<open>run\<close> looks at the length
  of the address: the counterexample is the 3-character address \<open>ABC\<close>, for which \<open>run\<close>
  returns 82 bytes.  What holds instead: the address-length field is always the encoding
  of 40; the only addresses at which \<open>get_address\<close> fails are those that \<open>encode('utf-8')\<close>
  rejects (they hold a surrogate code point), with \<open>UnicodeEncodeError\<close>; for every other
  address, whatever its length, the address field is the hexadecimal digits of its UTF-8
  encoding (two bytes for each byte of the encoding), and \<open>run\<close> fails with an error \<open>e\<close>
  for one such address exactly if it fails with \<open>e\<close> for any other such address, one of
  40 characters included: the length of the address never decides a failure.
\<close>

theorem C8_address_unchecked:
  "get_address_length (s\<lparr>address := a\<rparr>) = Inr (le_bytes 4 40)
   \<and> (encode_utf8 a = Inl UnicodeEncodeError \<or> (\<exists>ab. encode_utf8 a = Inr ab))
   \<and> (encode_utf8 a = Inl UnicodeEncodeError) = list_ex is_surrogate a
   \<and> (encode_utf8 a = Inl UnicodeEncodeError \<longrightarrow>
         get_address (s\<lparr>address := a\<rparr>) = Inl UnicodeEncodeError
         \<and> (\<exists>e. fst (run now1 now2 (s\<lparr>address := a\<rparr>)) = Inl e))
   \<and> (\<forall>ab. encode_utf8 a = Inr ab \<longrightarrow>
         get_address (s\<lparr>address := a\<rparr>) = Inr (map of_nat (hex ab))
         \<and> length (hex ab) = 2 * length ab
         \<and> (\<forall>b bb. encode_utf8 b = Inr bb \<longrightarrow>
               (fst (run now1 now2 (s\<lparr>address := a\<rparr>)) = Inl e)
                = (fst (run now1 now2 (s\<lparr>address := b\<rparr>)) = Inl e)))"
proof (intro conjI impI allI)
  show "get_address_length (s\<lparr>address := a\<rparr>) = Inr (le_bytes 4 40)"
    by (rule get_address_length_val)
  show "encode_utf8 a = Inl UnicodeEncodeError \<or> (\<exists>ab. encode_utf8 a = Inr ab)"
    by (rule encode_utf8_cases)
  show "(encode_utf8 a = Inl UnicodeEncodeError) = list_ex is_surrogate a"
    by (simp add: encode_utf8_def)
next
  assume u: "encode_utf8 a = Inl UnicodeEncodeError"
  show "get_address (s\<lparr>address := a\<rparr>) = Inl UnicodeEncodeError"
    using u by (simp add: get_address_Inl)
  have "encode_utf8 [] = Inr []" by (simp add: encode_utf8_def)
  from run_address_unencodable [OF u this, of now1 now2 s]
  show "\<exists>e. fst (run now1 now2 (s\<lparr>address := a\<rparr>)) = Inl e" by blast
next
  fix ab assume e: "encode_utf8 a = Inr ab"
  show "get_address (s\<lparr>address := a\<rparr>) = Inr (map of_nat (hex ab))"
    using e by (simp add: get_address_Inr)
  show "length (hex ab) = 2 * length ab" by (rule length_hex)
next
  fix ab b bb assume "encode_utf8 a = Inr ab" "encode_utf8 b = Inr bb"
  then show "(fst (run now1 now2 (s\<lparr>address := a\<rparr>)) = Inl e)
                = (fst (run now1 now2 (s\<lparr>address := b\<rparr>)) = Inl e)"
    by (rule run_address_irrelevant)
qed

theorem C8_counterexample:
  "length (str ''ABC'') = 3
   \<and> fst (run 100000000 100000000
         (init example_key (PyInt 12) (str ''ABC'') None ''plane'' ''transfer'' ''test'')) =
     Inr [1, 1, 0, 0, 2, 0, 0, 152, 0, 225, 245, 5, 32, 0, 0, 0, 239, 205, 171, 137, 103, 69, 35, 1, 239, 205, 171, 137, 103, 69, 35, 1, 239, 205, 171, 137, 103, 69, 35, 1, 239, 205, 171, 137, 103, 69, 35, 1, 80, 195, 0, 0, 0, 0, 0, 0, 16, 239, 245, 5, 40, 0, 0, 0, 52, 49, 52, 50, 52, 51, 0, 27, 183, 0, 0, 0, 0, 0, 0, 0, 0, 0]"
  by (simp add: run_short_address)

theorem C8_address_unchecked_witness:
  "fst (run 100000000 100000000
         (init example_key (PyInt 12) (str ''ABCD'') None ''plane'' ''transfer'' ''test''))
     \<noteq> Inl KeyError
   \<and> get_address (init example_key (PyInt 12) (str ''ABCD'') None ''plane'' ''transfer'' ''test'')
       = Inr [52, 49, 52, 50, 52, 51, 52, 52]
   \<and> get_address (init example_key (PyInt 12) [65, 0xD800] None ''plane'' ''transfer'' ''test'')
       = Inl UnicodeEncodeError
   \<and> (\<exists>e. fst (run 100000000 100000000
         (init example_key (PyInt 12) [65, 0xD800] None ''plane'' ''transfer'' ''test'')) = Inl e)"
proof -
  let ?s = "init example_key (PyInt 12) example_address None ''plane'' ''transfer'' ''test''"
  have a: "?s\<lparr>address := str ''ABCD''\<rparr>
           = init example_key (PyInt 12) (str ''ABCD'') None ''plane'' ''transfer'' ''test''"
    and b: "?s\<lparr>address := example_address\<rparr> = ?s"
    and c: "?s\<lparr>address := [65, 0xD800]\<rparr>
           = init example_key (PyInt 12) [65, 0xD800] None ''plane'' ''transfer'' ''test''"
    by (simp_all add: init_def)
  have ea: "encode_utf8 (str ''ABCD'') = Inr [65, 66, 67, 68]"
    by (simp add: encode_utf8_def str_def utf8_char_def is_surrogate_def)
  have hx: "map of_nat (hex [65, 66, 67, 68]) = ([52, 49, 52, 50, 52, 51, 52, 52] :: bytes)"
    by (simp add: hex_def hex_byte_def hex_digit_def str_def)
  have es: "encode_utf8 [65, 0xD800] = Inl UnicodeEncodeError"
    by (simp add: encode_utf8_def is_surrogate_def)
  note t1 = C8_address_unchecked [where s = ?s and a = "str ''ABCD''" and ?now1.0 = 100000000
      and ?now2.0 = 100000000 and e = KeyError, unfolded a]
  from t1 ea have 1: "get_address (init example_key (PyInt 12) (str ''ABCD'') None ''plane'' ''transfer'' ''test'')
       = Inr [52, 49, 52, 50, 52, 51, 52, 52]"
    by (simp add: hx)
  from t1 ea example_address_utf8 have
    "(fst (run 100000000 100000000
         (init example_key (PyInt 12) (str ''ABCD'') None ''plane'' ''transfer'' ''test'')) = Inl KeyError)
     = (fst (run 100000000 100000000 (?s\<lparr>address := example_address\<rparr>)) = Inl KeyError)"
    by blast
  then have 2: "fst (run 100000000 100000000
         (init example_key (PyInt 12) (str ''ABCD'') None ''plane'' ''transfer'' ''test''))
     \<noteq> Inl KeyError"
    unfolding b run_example by simp
  note t2 = C8_address_unchecked [where s = ?s and a = "[65, 0xD800]" and ?now1.0 = 100000000
      and ?now2.0 = 100000000 and e = KeyError, unfolded c]
  from t2 es have 3: "get_address (init example_key (PyInt 12) [65, 0xD800] None ''plane'' ''transfer'' ''test'')
       = Inl UnicodeEncodeError"
    and 4: "\<exists>e. fst (run 100000000 100000000
         (init example_key (PyInt 12) [65, 0xD800] None ''plane'' ''transfer'' ''test'')) = Inl e"
    by blast+
  from 1 2 3 4 show ?thesis by blast
qed



text \<open>
  Claim C5, as amended.  The claim names the two message types \<open>plain\<close> and \<open>encrypted\<close>.
  \<open>set_message_info\<close> compares \<open>message_type\<close> with the strings \<open>plane\<close> and \<open>encryption\<close>
  (\<open>plane\<close> is also the default of \<open>__init__\<close>): the counterexample is a request with the
  message \<open>NEM\<close> and the message type \<open>plain\<close>, or \<open>encrypted\<close>, on which \<open>run\<close> raises the
  exception for an invalid message type.  What holds, for every request that carries a
  (non-empty) message: with any message type other than \<open>plane\<close> and \<open>encryption\<close>,
  \<open>set_message_info\<close> and \<open>run\<close> raise \<open>Exception('Invalid message type. Select plane or
  encryption!')\<close> and leave the object unchanged; whenever \<open>run\<close> returns, the message type
  is \<open>plane\<close> or \<open>encryption\<close> and the 4-byte tag in the output, between
  \<open>message_field_length\<close> and \<open>payload_length\<close>, is the encoding of 1 for \<open>plane\<close> and of 2 for
  \<open>encryption\<close>; and \<open>set_message_info\<close> does produce that tag for these two types when the
  message can be encoded in fewer than 2^32 - 8 bytes.
\<close>

theorem C5_message_type_tag:
  assumes "truthy (message s)"
  shows "(message_type s \<noteq> Str ''plane'' \<and> message_type s \<noteq> Str ''encryption'' \<longrightarrow>
            set_message_info s = (Inl (Exception ''Invalid message type. Select plane or encryption!''), s)
          \<and> run now1 now2 s = (Inl (Exception ''Invalid message type. Select plane or encryption!''), s))
       \<and> (fst (run now1 now2 s) = Inr out \<longrightarrow>
            (\<exists>pre m mb tag.
                message s = Some m \<and> encode_utf8 m = Inr mb
              \<and> (message_type s = Str ''plane'' \<and> tag = 1
                  \<or> message_type s = Str ''encryption'' \<and> tag = 2)
              \<and> out = pre @ le_bytes 4 (8 + int (length mb)) @ le_bytes 4 tag
                       @ le_bytes 4 (int (length mb)) @ map of_nat (hex mb)
              \<and> length (le_bytes 4 tag) = 4 \<and> from_bytes_little (le_bytes 4 tag) = tag))
       \<and> (\<forall>m mb. message s = Some m \<and> encode_utf8 m = Inr mb
                \<and> 8 + int (length mb) < 2 ^ 32 \<longrightarrow>
            (message_type s = Str ''plane'' \<longrightarrow>
               fst (set_message_info s) = Inr ()
               \<and> message_type (snd (set_message_info s)) = Bytes (le_bytes 4 1))
          \<and> (message_type s = Str ''encryption'' \<longrightarrow>
               fst (set_message_info s) = Inr ()
               \<and> message_type (snd (set_message_info s)) = Bytes (le_bytes 4 2)))"
proof (intro conjI impI allI)
  assume a: "message_type s \<noteq> Str ''plane'' \<and> message_type s \<noteq> Str ''encryption''"
  then show "set_message_info s = (Inl (Exception ''Invalid message type. Select plane or encryption!''), s)"
    by (intro set_message_info_bad_type) simp_all
  from a have "step1 s = (Inl (Exception ''Invalid message type. Select plane or encryption!''), s)"
    by (intro step1_bad_type assms) simp_all
  then show "run now1 now2 s = (Inl (Exception ''Invalid message type. Select plane or encryption!''), s)"
    by (rule run_step1_fails)
next
  assume run: "fst (run now1 now2 s) = Inr out"
  from run_message_Inr [OF assms run] obtain m mb ab tag ver pk fee am where
    m: "message s = Some m" "encode_utf8 m = Inr mb"
    and tag: "message_type s = Str ''plane'' \<and> tag = 1
             \<or> message_type s = Str ''encryption'' \<and> tag = 2"
    and out: "out = (common_data s @ le_bytes 4 (the (map_of TRANSACTION_TYPE (transaction_type s)))
                  @ ver @ le_bytes 4 now1 @ le_bytes 4 32 @ pk @ fee
                  @ le_bytes 4 (now2 + deadline_span s)
                  @ transfer_data s @ le_bytes 4 40
                  @ map of_nat (hex ab) @ am)
                 @ le_bytes 4 (8 + int (length mb)) @ le_bytes 4 tag
                 @ le_bytes 4 (int (length mb))
                 @ map of_nat (hex mb)"
    by blast
  from tag have "length (le_bytes 4 tag) = 4 \<and> from_bytes_little (le_bytes 4 tag) = tag"
    by (auto simp: length_le_bytes from_bytes_le_bytes)
  with m tag out show "\<exists>pre m mb tag.
                message s = Some m \<and> encode_utf8 m = Inr mb
              \<and> (message_type s = Str ''plane'' \<and> tag = 1
                  \<or> message_type s = Str ''encryption'' \<and> tag = 2)
              \<and> out = pre @ le_bytes 4 (8 + int (length mb)) @ le_bytes 4 tag
                       @ le_bytes 4 (int (length mb)) @ map of_nat (hex mb)
              \<and> length (le_bytes 4 tag) = 4 \<and> from_bytes_little (le_bytes 4 tag) = tag"
    by blast
next
  fix m mb assume a: "message s = Some m \<and> encode_utf8 m = Inr mb
                \<and> 8 + int (length mb) < 2 ^ 32"
    and b: "message_type s = Str ''plane''"
  from a have m: "message s = Some m" and e: "encode_utf8 m = Inr mb"
    and bb: "8 + int (length mb) < 2 ^ 32" by blast+
  from b have t: "message_type s = Str ''plane'' \<and> (1 :: int) = 1
             \<or> message_type s = Str ''encryption'' \<and> (1 :: int) = 2" by simp
  have "set_message_info s =
           (Inr (), s\<lparr>message_type := Bytes (le_bytes 4 1),
                   payload := Some (map of_nat (hex mb)),
                   message_field := Some (le_bytes 4 (8 + int (length mb))),
                   payload_length := Some (le_bytes 4 (int (length mb)))\<rparr>)"
    by (rule set_message_info_value [OF t m e bb])
  then show "fst (set_message_info s) = Inr ()"
    "message_type (snd (set_message_info s)) = Bytes (le_bytes 4 1)" by simp_all
next
  fix m mb assume a: "message s = Some m \<and> encode_utf8 m = Inr mb
                \<and> 8 + int (length mb) < 2 ^ 32"
    and b: "message_type s = Str ''encryption''"
  from a have m: "message s = Some m" and e: "encode_utf8 m = Inr mb"
    and bb: "8 + int (length mb) < 2 ^ 32" by blast+
  from b have t: "message_type s = Str ''plane'' \<and> (2 :: int) = 1
             \<or> message_type s = Str ''encryption'' \<and> (2 :: int) = 2" by simp
  have "set_message_info s =
           (Inr (), s\<lparr>message_type := Bytes (le_bytes 4 2),
                   payload := Some (map of_nat (hex mb)),
                   message_field := Some (le_bytes 4 (8 + int (length mb))),
                   payload_length := Some (le_bytes 4 (int (length mb)))\<rparr>)"
    by (rule set_message_info_value [OF t m e bb])
  then show "fst (set_message_info s) = Inr ()"
    "message_type (snd (set_message_info s)) = Bytes (le_bytes 4 2)" by simp_all
qed

theorem C5_counterexample:
  "run 100000000 100000000
     (init example_key (PyInt 12) example_address (Some (str ''NEM'')) ''plain'' ''transfer'' ''test'')
   = (Inl (Exception ''Invalid message type. Select plane or encryption!''),
      init example_key (PyInt 12) example_address (Some (str ''NEM'')) ''plain'' ''transfer'' ''test'')
   \<and> run 100000000 100000000
     (init example_key (PyInt 12) example_address (Some (str ''NEM'')) ''encrypted'' ''transfer'' ''test'')
   = (Inl (Exception ''Invalid message type. Select plane or encryption!''),
      init example_key (PyInt 12) example_address (Some (str ''NEM'')) ''encrypted'' ''transfer'' ''test'')"
  by (intro conjI; rule run_step1_fails, rule step1_bad_type)
     (simp_all add: init_def truthy_def)

theorem C5_message_type_tag_witness:
  "(\<exists>pre. ([1, 1, 0, 0, 2, 0, 0, 152, 0, 225, 245, 5, 32, 0, 0, 0, 239, 205, 171, 137, 103, 69, 35, 1, 239, 205, 171, 137, 103, 69, 35, 1, 239, 205, 171, 137, 103, 69, 35, 1, 239, 205, 171, 137, 103, 69, 35, 1, 160, 134, 1, 0, 0, 0, 0, 0, 16, 239, 245, 5, 40, 0, 0, 0, 53, 52, 52, 49, 52, 99, 52, 57, 52, 51, 52, 53, 52, 99, 52, 51, 52, 52, 51, 51, 53, 56, 53, 48, 52, 56, 51, 52, 52, 54, 52, 54, 52, 57, 51, 53, 53, 51, 53, 52, 52, 55, 52, 55, 52, 101, 53, 51, 52, 101, 53, 51, 53, 55, 53, 48, 52, 102, 53, 52, 52, 55, 51, 53, 52, 53, 51, 52, 52, 52, 53, 51, 51, 50, 53, 52, 52, 102, 53, 51, 0, 27, 183, 0, 0, 0, 0, 0, 11, 0, 0, 0, 1, 0, 0, 0, 3, 0, 0, 0, 52, 101, 52, 53, 52, 100] :: bytes) = pre @ [11, 0, 0, 0] @ [1, 0, 0, 0] @ [3, 0, 0, 0] @ [52, 101, 52, 53, 52, 100])
   \<and> (\<exists>pre. ([1, 1, 0, 0, 2, 0, 0, 152, 0, 225, 245, 5, 32, 0, 0, 0, 239, 205, 171, 137, 103, 69, 35, 1, 239, 205, 171, 137, 103, 69, 35, 1, 239, 205, 171, 137, 103, 69, 35, 1, 239, 205, 171, 137, 103, 69, 35, 1, 160, 134, 1, 0, 0, 0, 0, 0, 16, 239, 245, 5, 40, 0, 0, 0, 53, 52, 52, 49, 52, 99, 52, 57, 52, 51, 52, 53, 52, 99, 52, 51, 52, 52, 51, 51, 53, 56, 53, 48, 52, 56, 51, 52, 52, 54, 52, 54, 52, 57, 51, 53, 53, 51, 53, 52, 52, 55, 52, 55, 52, 101, 53, 51, 52, 101, 53, 51, 53, 55, 53, 48, 52, 102, 53, 52, 52, 55, 51, 53, 52, 53, 51, 52, 52, 52, 53, 51, 51, 50, 53, 52, 52, 102, 53, 51, 0, 27, 183, 0, 0, 0, 0, 0, 11, 0, 0, 0, 2, 0, 0, 0, 3, 0, 0, 0, 52, 101, 52, 53, 52, 100] :: bytes) = pre @ [11, 0, 0, 0] @ [2, 0, 0, 0] @ [3, 0, 0, 0] @ [52, 101, 52, 53, 52, 100])
   \<and> fst (run 100000000 100000000
       (init example_key (PyInt 12) example_address (Some (str ''NEM'')) ''bogus'' ''transfer'' ''test''))
     = Inl (Exception ''Invalid message type. Select plane or encryption!'')"
proof -
  let ?p = "init example_key (PyInt 12) example_address (Some (str ''NEM'')) ''plane'' ''transfer'' ''test''"
  let ?e = "init example_key (PyInt 12) example_address (Some (str ''NEM'')) ''encryption'' ''transfer'' ''test''"
  let ?b = "init example_key (PyInt 12) example_address (Some (str ''NEM'')) ''bogus'' ''transfer'' ''test''"
  have tm: "truthy (message ?p)" "truthy (message ?e)" "truthy (message ?b)"
    by (simp_all add: init_def truthy_def)
  have f: "message ?p = Some (str ''NEM'')" "message_type ?p = Str ''plane''"
    "message ?e = Some (str ''NEM'')" "message_type ?e = Str ''encryption''"
    "message_type ?b = Str ''bogus''"
    by (simp_all add: init_def)
  have lb: "le_bytes 4 11 = [11, 0, 0, 0]" "le_bytes 4 3 = [3, 0, 0, 0]"
    "le_bytes 4 1 = [1, 0, 0, 0]" "le_bytes 4 2 = [2, 0, 0, 0]"
    by (simp_all add: le_bytes_numeral)
  from C5_message_type_tag [OF tm(1), of 100000000 100000000 "[1, 1, 0, 0, 2, 0, 0, 152, 0, 225, 245, 5, 32, 0, 0, 0, 239, 205, 171, 137, 103, 69, 35, 1, 239, 205, 171, 137, 103, 69, 35, 1, 239, 205, 171, 137, 103, 69, 35, 1, 239, 205, 171, 137, 103, 69, 35, 1, 160, 134, 1, 0, 0, 0, 0, 0, 16, 239, 245, 5, 40, 0, 0, 0, 53, 52, 52, 49, 52, 99, 52, 57, 52, 51, 52, 53, 52, 99, 52, 51, 52, 52, 51, 51, 53, 56, 53, 48, 52, 56, 51, 52, 52, 54, 52, 54, 52, 57, 51, 53, 53, 51, 53, 52, 52, 55, 52, 55, 52, 101, 53, 51, 52, 101, 53, 51, 53, 55, 53, 48, 52, 102, 53, 52, 52, 55, 51, 53, 52, 53, 51, 52, 52, 52, 53, 51, 51, 50, 53, 52, 52, 102, 53, 51, 0, 27, 183, 0, 0, 0, 0, 0, 11, 0, 0, 0, 1, 0, 0, 0, 3, 0, 0, 0, 52, 101, 52, 53, 52, 100]"]
  have 1: "\<exists>pre. ([1, 1, 0, 0, 2, 0, 0, 152, 0, 225, 245, 5, 32, 0, 0, 0, 239, 205, 171, 137, 103, 69, 35, 1, 239, 205, 171, 137, 103, 69, 35, 1, 239, 205, 171, 137, 103, 69, 35, 1, 239, 205, 171, 137, 103, 69, 35, 1, 160, 134, 1, 0, 0, 0, 0, 0, 16, 239, 245, 5, 40, 0, 0, 0, 53, 52, 52, 49, 52, 99, 52, 57, 52, 51, 52, 53, 52, 99, 52, 51, 52, 52, 51, 51, 53, 56, 53, 48, 52, 56, 51, 52, 52, 54, 52, 54, 52, 57, 51, 53, 53, 51, 53, 52, 52, 55, 52, 55, 52, 101, 53, 51, 52, 101, 53, 51, 53, 55, 53, 48, 52, 102, 53, 52, 52, 55, 51, 53, 52, 53, 51, 52, 52, 52, 53, 51, 51, 50, 53, 52, 52, 102, 53, 51, 0, 27, 183, 0, 0, 0, 0, 0, 11, 0, 0, 0, 1, 0, 0, 0, 3, 0, 0, 0, 52, 101, 52, 53, 52, 100] :: bytes) = pre @ [11, 0, 0, 0] @ [1, 0, 0, 0] @ [3, 0, 0, 0] @ [52, 101, 52, 53, 52, 100]"
    unfolding f run_example_NEM_plane
    by (simp add: NEM_utf8 NEM_hex lb)
  from C5_message_type_tag [OF tm(2), of 100000000 100000000 "[1, 1, 0, 0, 2, 0, 0, 152, 0, 225, 245, 5, 32, 0, 0, 0, 239, 205, 171, 137, 103, 69, 35, 1, 239, 205, 171, 137, 103, 69, 35, 1, 239, 205, 171, 137, 103, 69, 35, 1, 239, 205, 171, 137, 103, 69, 35, 1, 160, 134, 1, 0, 0, 0, 0, 0, 16, 239, 245, 5, 40, 0, 0, 0, 53, 52, 52, 49, 52, 99, 52, 57, 52, 51, 52, 53, 52, 99, 52, 51, 52, 52, 51, 51, 53, 56, 53, 48, 52, 56, 51, 52, 52, 54, 52, 54, 52, 57, 51, 53, 53, 51, 53, 52, 52, 55, 52, 55, 52, 101, 53, 51, 52, 101, 53, 51, 53, 55, 53, 48, 52, 102, 53, 52, 52, 55, 51, 53, 52, 53, 51, 52, 52, 52, 53, 51, 51, 50, 53, 52, 52, 102, 53, 51, 0, 27, 183, 0, 0, 0, 0, 0, 11, 0, 0, 0, 2, 0, 0, 0, 3, 0, 0, 0, 52, 101, 52, 53, 52, 100]"]
  have 2: "\<exists>pre. ([1, 1, 0, 0, 2, 0, 0, 152, 0, 225, 245, 5, 32, 0, 0, 0, 239, 205, 171, 137, 103, 69, 35, 1, 239, 205, 171, 137, 103, 69, 35, 1, 239, 205, 171, 137, 103, 69, 35, 1, 239, 205, 171, 137, 103, 69, 35, 1, 160, 134, 1, 0, 0, 0, 0, 0, 16, 239, 245, 5, 40, 0, 0, 0, 53, 52, 52, 49, 52, 99, 52, 57, 52, 51, 52, 53, 52, 99, 52, 51, 52, 52, 51, 51, 53, 56, 53, 48, 52, 56, 51, 52, 52, 54, 52, 54, 52, 57, 51, 53, 53, 51, 53, 52, 52, 55, 52, 55, 52, 101, 53, 51, 52, 101, 53, 51, 53, 55, 53, 48, 52, 102, 53, 52, 52, 55, 51, 53, 52, 53, 51, 52, 52, 52, 53, 51, 51, 50, 53, 52, 52, 102, 53, 51, 0, 27, 183, 0, 0, 0, 0, 0, 11, 0, 0, 0, 2, 0, 0, 0, 3, 0, 0, 0, 52, 101, 52, 53, 52, 100] :: bytes) = pre @ [11, 0, 0, 0] @ [2, 0, 0, 0] @ [3, 0, 0, 0] @ [52, 101, 52, 53, 52, 100]"
    unfolding f run_example_NEM_encryption
    by (simp add: NEM_utf8 NEM_hex lb)
  from C5_message_type_tag [OF tm(3), of 100000000 100000000]
  have 3: "fst (run 100000000 100000000 ?b) = Inl (Exception ''Invalid message type. Select plane or encryption!'')"
    unfolding f by simp
  from 1 2 3 show ?thesis by simp
qed

end
